theory Spec2Isabelle
  imports Complex_Main "HOL-Library.Word"
begin

section \<open>Python values shared by the modules\<close>

text \<open>
  Exceptions are values. Every operation of the source that mutates an object is a
  function from the state before the call to a pair of the call's outcome and the state
  at the moment the call returns or raises, so that "nothing was changed when it raised"
  is a statement about the second component.
\<close>

datatype py_error =
    ValueError string
  | IndexError string
  | TypeError string
  | GLError string

datatype 'a result = Return 'a | Raise py_error

type_synonym byte = "8 word"

text \<open>
  A \<open>numpy.ndarray\<close>: its \<open>shape\<close> tuple and its elements in row-major (C) order, which
  is the order of \<open>flatten()\<close> and \<open>tobytes()\<close>.
\<close>

record 'a ndarray =
  shape :: "nat list"
  data :: "'a list"

text \<open>An array whose \<open>dtype\<close> matters to the code: the elements are its raw bytes.\<close>

type_synonym dtype = string

record typed_ndarray = "byte ndarray" +
  dtype :: dtype


section \<open>compute\_shader.py: the storage buffers of a ComputeShader\<close>

text \<open>
  The part of the GL context that \<open>create_storage_buffer\<close> touches: the name generator
  of \<open>glGenBuffers\<close>, the data stores, the generic \<open>GL_SHADER_STORAGE_BUFFER\<close> binding,
  the indexed binding points and their number
  (\<open>GL_MAX_SHADER_STORAGE_BUFFER_BINDINGS\<close>, a constant of the driver).
\<close>

record ssbo_context =
  next_buffer :: nat
  stores :: "nat \<rightharpoonup> byte list"
  ssbo_bound :: nat
  ssbo_indexed :: "nat \<rightharpoonup> nat"
  max_ssbo_bindings :: nat

definition glGenBuffers_ssbo :: "ssbo_context \<Rightarrow> nat \<times> ssbo_context" where
  "glGenBuffers_ssbo gl = (next_buffer gl, gl\<lparr>next_buffer := Suc (next_buffer gl)\<rparr>)"

definition glBindBuffer_ssbo :: "nat \<Rightarrow> ssbo_context \<Rightarrow> ssbo_context" where
  "glBindBuffer_ssbo b gl = gl\<lparr>ssbo_bound := b\<rparr>"

definition glBufferData_ssbo :: "byte list \<Rightarrow> ssbo_context \<Rightarrow> ssbo_context" where
  "glBufferData_ssbo bs gl = gl\<lparr>stores := (stores gl)(ssbo_bound gl \<mapsto> bs)\<rparr>"

text \<open>
  \<open>glBindBufferBase\<close> reports \<open>GL_INVALID_VALUE\<close>, which PyOpenGL raises, when the index
  is not below the number of binding points.
\<close>

definition glBindBufferBase_ssbo ::
    "int \<Rightarrow> nat \<Rightarrow> ssbo_context \<Rightarrow> unit result \<times> ssbo_context" where
  "glBindBufferBase_ssbo binding b gl =
     (if 0 \<le> binding \<and> binding < int (max_ssbo_bindings gl)
      then (Return (),
            gl\<lparr>ssbo_bound := b, ssbo_indexed := (ssbo_indexed gl)(nat binding \<mapsto> b)\<rparr>)
      else (Raise (GLError ''GL_INVALID_VALUE''), gl))"

text \<open>
  \<open>self._ssbo_map\<close> maps a buffer name to the tuple
  \<open>(ssbo, binding, data.dtype, data.shape)\<close>.
\<close>

type_synonym ssbo_entry = "nat \<times> int \<times> dtype \<times> nat list"

record compute_shader =
  program_id :: "nat option"
  work_groups :: "nat \<times> nat \<times> nat"
  ssbo_map :: "string \<rightharpoonup> ssbo_entry"

definition create_storage_buffer ::
    "string \<Rightarrow> typed_ndarray \<Rightarrow> int \<Rightarrow> compute_shader \<times> ssbo_context
       \<Rightarrow> unit result \<times> compute_shader \<times> ssbo_context" where
  "create_storage_buffer name d binding st =
     (case st of (self, gl) \<Rightarrow>
        if name \<in> dom (ssbo_map self)
        then (Raise (ValueError (''Buffer '' @ name @ '' already exists'')), self, gl)
        else
          (case glGenBuffers_ssbo gl of (ssbo, gl1) \<Rightarrow>
             let gl2 = glBindBuffer_ssbo ssbo gl1;
                 gl3 = glBufferData_ssbo (data d) gl2
             in (case glBindBufferBase_ssbo binding ssbo gl3 of
                   (Raise e, gl4) \<Rightarrow> (Raise e, self, gl4)
                 | (Return u, gl4) \<Rightarrow>
                     (Return (),
                      self\<lparr>ssbo_map :=
                        (ssbo_map self)(name \<mapsto> (ssbo, binding, dtype d, shape d))\<rparr>,
                      gl4))))"

text \<open>A freshly constructed shader (empty registry) and two arrays for the examples.\<close>

definition shader0 :: compute_shader where
  "shader0 = \<lparr>program_id = Some 1, work_groups = (4, 1, 1), ssbo_map = Map.empty\<rparr>"

definition context0 :: ssbo_context where
  "context0 = \<lparr>next_buffer = 1, stores = Map.empty, ssbo_bound = 0,
                ssbo_indexed = Map.empty, max_ssbo_bindings = 8\<rparr>"

definition four_bytes :: typed_ndarray where
  "four_bytes = \<lparr>shape = [4], data = [1, 2, 3, 4], dtype = ''uint8''\<rparr>"


section \<open>advanced\_features.py: PersistentBuffer\<close>

text \<open>
  \<open>a[start:stop] = rhs\<close> on a one-dimensional numpy array. The bounds are adjusted as
  Python adjusts slice bounds (a negative bound counts from the end, then both are
  clipped to the array), the slice is empty when the adjusted stop is not after the
  adjusted start, and \<open>rhs\<close> must have the length of the slice or be a single element,
  which is broadcast; otherwise numpy raises \<open>ValueError\<close>.
\<close>

definition slice_bound :: "nat \<Rightarrow> int \<Rightarrow> nat" where
  "slice_bound n i =
     (if i < 0 then (if i + int n < 0 then 0 else nat (i + int n))
      else if int n < i then n else nat i)"

definition setitem_slice :: "'a list \<Rightarrow> int \<Rightarrow> int \<Rightarrow> 'a list \<Rightarrow> 'a list result" where
  "setitem_slice a start stop rhs =
     (let lo = slice_bound (length a) start;
          hi = slice_bound (length a) stop;
          m = hi - lo
      in if length rhs = m then Return (take lo a @ rhs @ drop (lo + m) a)
         else if length rhs = 1 then Return (take lo a @ replicate m (hd rhs) @ drop (lo + m) a)
         else Raise (ValueError ''could not broadcast input array''))"

text \<open>
  The fields \<open>_id\<close>, \<open>_size\<close> and \<open>_array\<close> of a PersistentBuffer. \<open>_array\<close> is the
  byte view of the mapped region (\<open>None\<close> once deleted); a byte of the region that
  nothing has written yet has no defined content and is \<open>None\<close> in the list.
\<close>

record persistent_buffer =
  pb_id :: "nat option"
  pb_size :: int
  pb_array :: "byte option list option"

text \<open>
  The object \<open>PersistentBuffer(size)\<close> leaves when the device accepts the size:
  \<open>_size = size\<close> and \<open>_array\<close> of shape \<open>(size,)\<close> over the fresh mapping (lines 63-82).
\<close>

definition PersistentBuffer_init :: "nat \<Rightarrow> nat \<Rightarrow> persistent_buffer" where
  "PersistentBuffer_init handle n =
     \<lparr>pb_id = Some handle, pb_size = int n, pb_array = Some (replicate n None)\<rparr>"

text \<open>
  \<open>PersistentBuffer.update(data, offset)\<close>; \<open>bs\<close> is \<open>data.tobytes()\<close>, so
  \<open>data.nbytes = length bs\<close>.
\<close>

definition PersistentBuffer_update ::
    "byte list \<Rightarrow> int \<Rightarrow> persistent_buffer \<Rightarrow> unit result \<times> persistent_buffer" where
  "PersistentBuffer_update bs offset self =
     (if offset + int (length bs) > pb_size self
      then (Raise (ValueError ''Update would exceed buffer size''), self)
      else
        (case pb_array self of
           None \<Rightarrow> (Raise (TypeError ''NoneType object does not support item assignment''), self)
         | Some a \<Rightarrow>
             (case setitem_slice a offset (offset + int (length bs)) (map Some bs) of
                Raise e \<Rightarrow> (Raise e, self)
              | Return a' \<Rightarrow> (Return (), self\<lparr>pb_array := Some a'\<rparr>))))"


section \<open>primitive.py: arrays\<close>

text \<open>
  A 32-bit float is its IEEE-754 bit pattern: the code only stores, slices, stacks and
  uploads the floats of the vertex attributes. Inputs to the setters of the vertex
  attributes are arrays that are already of dtype \<open>float32\<close>, for which
  \<open>np.asanyarray(value, dtype=np.float32)\<close> and \<open>np.ascontiguousarray\<close> keep shape and
  elements.
\<close>

type_synonym f32 = "32 word"

definition ndim :: "'a ndarray \<Rightarrow> nat" where
  "ndim a = length (shape a)"

text \<open>\<open>a.shape[0]\<close> and \<open>len(a)\<close>: both fail on a zero-dimensional array.\<close>

definition shape0 :: "'a ndarray \<Rightarrow> nat result" where
  "shape0 a = (case shape a of
                 [] \<Rightarrow> Raise (IndexError ''tuple index out of range'')
               | n # ns \<Rightarrow> Return n)"

definition len_nd :: "'a ndarray \<Rightarrow> nat result" where
  "len_nd a = (case shape a of
                 [] \<Rightarrow> Raise (TypeError ''len() of unsized object'')
               | n # ns \<Rightarrow> Return n)"

text \<open>Row \<open>i\<close> of row-major data whose rows have \<open>k\<close> elements.\<close>

definition row :: "nat \<Rightarrow> 'a list \<Rightarrow> nat \<Rightarrow> 'a list" where
  "row k xs i = take k (drop (i * k) xs)"

text \<open>\<open>value[:, :2]\<close> on a two-dimensional array.\<close>

definition first_two_columns :: "'a ndarray \<Rightarrow> 'a ndarray" where
  "first_two_columns a =
     (let n = shape a ! 0; c = shape a ! 1
      in \<lparr>shape = [n, min c 2], data = concat (map (\<lambda>i. take 2 (row c (data a) i)) [0..<n])\<rparr>)"

text \<open>
  \<open>np.hstack((a, b))\<close>: zero-dimensional arrays become one-dimensional; if the first
  array is one-dimensional the two are joined along axis 0, otherwise along axis 1,
  which needs the same number of dimensions and the same extent on every other axis.
\<close>

definition atleast_1d :: "'a ndarray \<Rightarrow> 'a ndarray" where
  "atleast_1d a = (if shape a = [] then a\<lparr>shape := [1]\<rparr> else a)"

definition hstack :: "'a ndarray \<Rightarrow> 'a ndarray \<Rightarrow> 'a ndarray result" where
  "hstack a0 b0 =
     (let a = atleast_1d a0; b = atleast_1d b0
      in if ndim a = 1
         then (if ndim b = 1
               then Return \<lparr>shape = [shape a ! 0 + shape b ! 0], data = data a @ data b\<rparr>
               else Raise (ValueError ''all the input arrays must have same number of dimensions''))
         else if ndim b = ndim a
         then (if shape b ! 0 = shape a ! 0 \<and> drop 2 (shape b) = drop 2 (shape a)
               then (let n = shape a ! 0;
                         ka = prod_list (tl (shape a));
                         kb = prod_list (tl (shape b))
                     in Return \<lparr>shape = n # (shape a ! 1 + shape b ! 1) # drop 2 (shape a),
                                data = concat (map (\<lambda>i. row ka (data a) i @ row kb (data b) i)
                                                 [0..<n])\<rparr>)
               else Raise (ValueError ''all the input array dimensions except for the concatenation axis must match exactly''))
         else Raise (ValueError ''all the input arrays must have same number of dimensions''))"

text \<open>
  \<open>np.transpose(a, [0, 2, 1])\<close>, which needs three dimensions: element \<open>(k, i, j)\<close> of
  the result is element \<open>(k, j, i)\<close> of \<open>a\<close>.
\<close>

definition transpose_021 :: "'a ndarray \<Rightarrow> 'a ndarray result" where
  "transpose_021 a =
     (case shape a of
        [x, r, c] \<Rightarrow>
          Return \<lparr>shape = [x, c, r],
                  data = concat (map (\<lambda>k. concat (map (\<lambda>i. map (\<lambda>j. data a ! (k * r * c + j * c + i))
                                                          [0..<r]) [0..<c])) [0..<x])\<rparr>
      | _ \<Rightarrow> Raise (ValueError ''axes don't match array''))"

text \<open>
  Index arrays. The inputs modelled are arrays of non-negative integers (any integer
  dtype, or Python ints); the elements of the index array the primitive stores are
  32-bit floats whose values are whole numbers, each written as that number.

  \<open>float32_of_nat\<close> is the conversion of an integer to the nearest 32-bit float, ties
  to the even significand: integers below \<open>2 ^ 24\<close> are exact, a larger one keeps its
  24 leading bits. (It is the float's value for every integer below the overflow
  threshold of the format, which is above every fixed-width integer dtype.)
\<close>

fun bit_length :: "nat \<Rightarrow> nat" where
  "bit_length n = (if n = 0 then 0 else Suc (bit_length (n div 2)))"

declare bit_length.simps [simp del]

definition float32_of_nat :: "nat \<Rightarrow> nat" where
  "float32_of_nat n =
     (if n < 2 ^ 24 then n
      else (let e = bit_length n - 24;
                q = n div 2 ^ e;
                r = n mod 2 ^ e;
                half = 2 ^ (e - 1)
            in (if half < r \<or> (r = half \<and> odd q) then q + 1 else q) * 2 ^ e))"

definition asanyarray_float32 :: "nat ndarray \<Rightarrow> nat ndarray" where
  "asanyarray_float32 a = \<lparr>shape = shape a, data = map float32_of_nat (data a)\<rparr>"

text \<open>
  \<open>.astype(np.uint32)\<close> of a float whose value is a whole number: the number itself
  when it fits 32 bits; beyond that the C conversion is undefined and the element has
  no defined content (\<open>None\<close>).
\<close>

definition astype_uint32 :: "nat \<Rightarrow> 32 word option" where
  "astype_uint32 v = (if v < 2 ^ 32 then Some (of_nat v) else None)"

text \<open>\<open>int(x)\<close> of a Python float: truncation towards zero.\<close>

definition py_int :: "rat \<Rightarrow> int" where
  "py_int x = (if 0 \<le> x then \<lfloor>x\<rfloor> else \<lceil>x\<rceil>)"

text \<open>
  Python floats are IEEE-754 doubles. A finite double is written as the rational number
  it denotes, and \<open>round_to_double\<close> is the rounding that ends every float operation:
  to the nearest double, ties to the even significand. For \<open>2 ^ e \<le> \<bar>x\<bar> < 2 ^ (e + 1)\<close>
  the doubles around \<open>x\<close> are the multiples of \<open>2 ^ (e - 52)\<close> (53 significant bits),
  and below the normal range the multiples of \<open>2 ^ (- 1074)\<close>. The exponent has no upper
  limit here: beyond the largest double the product is infinite in Python and \<open>int\<close>
  raises \<open>OverflowError\<close>, which is outside what the definitions cover.
\<close>

definition two_pow :: "int \<Rightarrow> rat" where
  "two_pow e = (if 0 \<le> e then 2 ^ nat e else 1 / 2 ^ nat (- e))"

text \<open>For positive \<open>x\<close>, the \<open>e\<close> with \<open>2 ^ e \<le> x < 2 ^ (e + 1)\<close>.\<close>

definition floor_log2 :: "rat \<Rightarrow> int" where
  "floor_log2 x =
     (if 1 \<le> x then int (bit_length (nat \<lfloor>x\<rfloor>)) - 1
      else - int (bit_length (nat (\<lceil>1 / x\<rceil> - 1))))"

definition ulp_of :: "rat \<Rightarrow> rat" where
  "ulp_of a = two_pow (max (floor_log2 a - 52) (- 1074))"

definition round_to_double :: "rat \<Rightarrow> rat" where
  "round_to_double x =
     (if x = 0 then 0
      else (let a = \<bar>x\<bar>;
                q = a / ulp_of a;
                f = \<lfloor>q\<rfloor>;
                m = (if 1 / 2 < q - of_int f \<or> (q - of_int f = 1 / 2 \<and> odd f) then f + 1 else f)
            in sgn x * (of_int m * ulp_of a)))"

text \<open>
  \<open>int(count * ratio)\<close> with \<open>count\<close> a Python int and \<open>ratio\<close> a float: the count is
  converted to a double, the product is rounded to a double, and \<open>int\<close> truncates it.
  The conversion of the count is exact below \<open>2 ^ 53\<close>, which is every count an array
  in memory can have, and for those counts the definition is the code's arithmetic. For a
  count of \<open>2 ^ 53\<close> or more, which no array reaches, the conversion would round as
  well; the definition keeps the exact product there.
\<close>

definition reserve_size :: "nat \<Rightarrow> rat \<Rightarrow> int" where
  "reserve_size n r =
     (if n < 2 ^ 53 then py_int (round_to_double (of_nat n * r))
      else py_int (of_nat n * r))"


section \<open>primitive.py: the Primitive object\<close>

text \<open>
  The attributes of a Primitive that the operations below read or write, each under
  the name of its property (\<open>positions\<close> is \<open>self._positions\<close>, and so on). An
  attribute that \<open>__init__\<close> does not create (\<open>_needs_vertex_update\<close>,
  \<open>_needs_index_update\<close>, \<open>_element_buffer_id\<close>) is \<open>None\<close> until it is first assigned,
  which is what \<open>hasattr\<close> tests. \<open>material\<close> and \<open>targets\<close> are objects that none of
  these operations looks at and are left out. The reserve ratio is a Python float,
  written as the rational number that double denotes.
\<close>

record primitive =
  positions :: "f32 ndarray"
  normals :: "f32 ndarray option"
  tangents :: "f32 ndarray option"
  texcoord_0 :: "f32 ndarray option"
  texcoord_1 :: "f32 ndarray option"
  color_0 :: "f32 ndarray option"
  joints_0 :: "f32 ndarray option"
  weights_0 :: "f32 ndarray option"
  indices :: "nat ndarray option"
  mode :: int
  poses :: "f32 ndarray option"
  bounds :: "f32 ndarray option"
  vaid :: "nat option"
  buffers :: "nat list"
  is_transparent :: "bool option"
  buf_flags :: "int option"
  buffer_reserve_ratio :: rat
  vertex_buffer_capacity :: "int option"
  index_buffer_capacity :: "int option"
  element_buffer_id :: "nat option"
  needs_vertex_update :: "bool option"
  needs_index_update :: "bool option"

subsection \<open>Property setters\<close>

definition positions_setter :: "f32 ndarray \<Rightarrow> primitive \<Rightarrow> unit result \<times> primitive" where
  "positions_setter v self = (Return (), self\<lparr>positions := v, bounds := None\<rparr>)"

definition normals_setter :: "f32 ndarray option \<Rightarrow> primitive \<Rightarrow> unit result \<times> primitive" where
  "normals_setter value self =
     (case value of
        None \<Rightarrow> (Return (), self\<lparr>normals := None\<rparr>)
      | Some v \<Rightarrow>
          if shape v = shape (positions self)
          then (Return (), self\<lparr>normals := Some v\<rparr>)
          else (Raise (ValueError ''Incorrect normals shape''), self))"

definition tangents_setter :: "f32 ndarray option \<Rightarrow> primitive \<Rightarrow> unit result \<times> primitive" where
  "tangents_setter value self =
     (case value of
        None \<Rightarrow> (Return (), self\<lparr>tangents := None\<rparr>)
      | Some v \<Rightarrow>
          (case shape0 (positions self) of
             Raise e \<Rightarrow> (Raise e, self)
           | Return n \<Rightarrow>
               if shape v = [n, 4]
               then (Return (), self\<lparr>tangents := Some v\<rparr>)
               else (Raise (ValueError ''Incorrect tangent shape''), self)))"

text \<open>
  The condition of the texture coordinate setters is a chain of \<open>or\<close>: each operand is
  evaluated only if the ones before it are false, so \<open>self.positions.shape[0]\<close> is read
  only for a two-dimensional value.
\<close>

definition texcoord_0_setter :: "f32 ndarray option \<Rightarrow> primitive \<Rightarrow> unit result \<times> primitive" where
  "texcoord_0_setter value self =
     (case value of
        None \<Rightarrow> (Return (), self\<lparr>texcoord_0 := None\<rparr>)
      | Some v \<Rightarrow>
          if ndim v = 2
          then (case shape0 (positions self) of
                  Raise e \<Rightarrow> (Raise e, self)
                | Return n \<Rightarrow>
                    if shape v ! 0 = n
                    then (if shape v ! 1 < 2
                          then (Raise (ValueError ''Incorrect texture coordinate shape''), self)
                          else if 2 < shape v ! 1
                          then (Return (), self\<lparr>texcoord_0 := Some (first_two_columns v)\<rparr>)
                          else (Return (), self\<lparr>texcoord_0 := Some v\<rparr>))
                    else (Raise (ValueError ''Incorrect texture coordinate shape''), self))
          else (Raise (ValueError ''Incorrect texture coordinate shape''), self))"

definition texcoord_1_setter :: "f32 ndarray option \<Rightarrow> primitive \<Rightarrow> unit result \<times> primitive" where
  "texcoord_1_setter value self =
     (case value of
        None \<Rightarrow> (Return (), self\<lparr>texcoord_1 := None\<rparr>)
      | Some v \<Rightarrow>
          if ndim v = 2
          then (case shape0 (positions self) of
                  Raise e \<Rightarrow> (Raise e, self)
                | Return n \<Rightarrow>
                    if shape v ! 0 = n
                    then (if shape v ! 1 = 2
                          then (Return (), self\<lparr>texcoord_1 := Some v\<rparr>)
                          else (Raise (ValueError ''Incorrect texture coordinate shape''), self))
                    else (Raise (ValueError ''Incorrect texture coordinate shape''), self))
          else (Raise (ValueError ''Incorrect texture coordinate shape''), self))"

text \<open>
  \<open>format_color_array\<close> lives in \<open>utils.py\<close>, which is not among the source files modelled here:
  the setter takes it as the parameter \<open>fmt\<close>, from the value and the requested shape
  to the formatted array or an exception.
\<close>

definition color_0_setter ::
    "('c \<Rightarrow> nat \<times> nat \<Rightarrow> f32 ndarray result) \<Rightarrow> 'c option \<Rightarrow> primitive
       \<Rightarrow> unit result \<times> primitive" where
  "color_0_setter fmt value self =
     (case value of
        None \<Rightarrow> (Return (), self\<lparr>is_transparent := None, color_0 := None\<rparr>)
      | Some v \<Rightarrow>
          (case len_nd (positions self) of
             Raise e \<Rightarrow> (Raise e, self)
           | Return n \<Rightarrow>
               (case fmt v (n, 4) of
                  Raise e \<Rightarrow> (Raise e, self)
                | Return c \<Rightarrow> (Return (), self\<lparr>is_transparent := None, color_0 := Some c\<rparr>))))"

definition joints_0_setter :: "f32 ndarray option \<Rightarrow> primitive \<Rightarrow> unit result \<times> primitive" where
  "joints_0_setter value self = (Return (), self\<lparr>joints_0 := value\<rparr>)"

definition weights_0_setter :: "f32 ndarray option \<Rightarrow> primitive \<Rightarrow> unit result \<times> primitive" where
  "weights_0_setter value self = (Return (), self\<lparr>weights_0 := value\<rparr>)"

definition indices_setter :: "nat ndarray option \<Rightarrow> primitive \<Rightarrow> unit result \<times> primitive" where
  "indices_setter value self =
     (case value of
        None \<Rightarrow> (Return (), self\<lparr>indices := None\<rparr>)
      | Some v \<Rightarrow> (Return (), self\<lparr>indices := Some (asanyarray_float32 v)\<rparr>))"

text \<open>\<open>GLTF.POINTS = 0\<close> and \<open>GLTF.TRIANGLE_FAN = 6\<close>, as the class docstring lists them.\<close>

definition mode_setter :: "int \<Rightarrow> primitive \<Rightarrow> unit result \<times> primitive" where
  "mode_setter value self =
     (if value < 0 \<or> 6 < value then (Raise (ValueError ''Invalid mode''), self)
      else (Return (), self\<lparr>mode := value\<rparr>))"

definition poses_setter :: "f32 ndarray option \<Rightarrow> primitive \<Rightarrow> unit result \<times> primitive" where
  "poses_setter value self =
     (case value of
        None \<Rightarrow> (Return (), self\<lparr>poses := None, bounds := None\<rparr>)
      | Some v0 \<Rightarrow>
          (let v = (if ndim v0 = 2 then v0\<lparr>shape := 1 # shape v0\<rparr> else v0)
           in if ndim v < 2 then (Raise (IndexError ''tuple index out of range''), self)
              else if shape v ! 1 = 4
              then (if ndim v < 3 then (Raise (IndexError ''tuple index out of range''), self)
                    else if shape v ! 2 = 4
                    then (Return (), self\<lparr>poses := Some v, bounds := None\<rparr>)
                    else (Raise (ValueError ''Pose matrices must be of shape (n,4,4)''), self))
              else (Raise (ValueError ''Pose matrices must be of shape (n,4,4)''), self)))"


text \<open>Statements run in sequence: the first exception ends the run.\<close>

fun run_all :: "('s \<Rightarrow> unit result \<times> 's) list \<Rightarrow> 's \<Rightarrow> unit result \<times> 's" where
  "run_all [] s = (Return (), s)"
| "run_all (f # fs) s =
     (case f s of
        (Raise e, s') \<Rightarrow> (Raise e, s')
      | (Return u, s') \<Rightarrow> run_all fs s')"

text \<open>
  \<open>Primitive.__init__\<close>: the property setters in the order of the source, then the
  private attributes. The setters of the optional attributes read nothing of \<open>self\<close>
  but \<open>positions\<close>, which is assigned first, so the object they start from is \<open>blank\<close>
  with every attribute empty. A \<open>mode\<close> of \<open>None\<close> is \<open>GLTF.TRIANGLES = 4\<close>.
\<close>

definition blank :: primitive where
  "blank = \<lparr>positions = \<lparr>shape = [], data = []\<rparr>, normals = None, tangents = None,
     texcoord_0 = None, texcoord_1 = None, color_0 = None, joints_0 = None,
     weights_0 = None, indices = None, mode = 4, poses = None, bounds = None,
     vaid = None, buffers = [], is_transparent = None, buf_flags = None,
     buffer_reserve_ratio = 1, vertex_buffer_capacity = None,
     index_buffer_capacity = None, element_buffer_id = None,
     needs_vertex_update = None, needs_index_update = None\<rparr>"

record 'c init_args =
  arg_positions :: "f32 ndarray"
  arg_normals :: "f32 ndarray option"
  arg_tangents :: "f32 ndarray option"
  arg_texcoord_0 :: "f32 ndarray option"
  arg_texcoord_1 :: "f32 ndarray option"
  arg_color_0 :: "'c option"
  arg_joints_0 :: "f32 ndarray option"
  arg_weights_0 :: "f32 ndarray option"
  arg_indices :: "nat ndarray option"
  arg_mode :: "int option"
  arg_poses :: "f32 ndarray option"
  arg_buffer_reserve_ratio :: rat

definition Primitive_init ::
    "('c \<Rightarrow> nat \<times> nat \<Rightarrow> f32 ndarray result) \<Rightarrow> 'c init_args \<Rightarrow> primitive result" where
  "Primitive_init fmt args =
     (case run_all
         [positions_setter (arg_positions args),
          normals_setter (arg_normals args),
          tangents_setter (arg_tangents args),
          texcoord_0_setter (arg_texcoord_0 args),
          texcoord_1_setter (arg_texcoord_1 args),
          color_0_setter fmt (arg_color_0 args),
          joints_0_setter (arg_joints_0 args),
          weights_0_setter (arg_weights_0 args),
          indices_setter (arg_indices args),
          mode_setter (case arg_mode args of None \<Rightarrow> 4 | Some m \<Rightarrow> m),
          poses_setter (arg_poses args)] blank of
        (Raise e, s) \<Rightarrow> Raise e
      | (Return u, s) \<Rightarrow>
          Return (s\<lparr>bounds := None, vaid := None, buffers := [], is_transparent := None,
                    buf_flags := None,
                    buffer_reserve_ratio := arg_buffer_reserve_ratio args,
                    vertex_buffer_capacity := None, index_buffer_capacity := None\<rparr>))"

subsection \<open>Staging updates\<close>

definition update_positions :: "f32 ndarray \<Rightarrow> primitive \<Rightarrow> primitive" where
  "update_positions v self =
     self\<lparr>positions := v, bounds := None, needs_vertex_update := Some True\<rparr>"

definition update_topology :: "nat ndarray option \<Rightarrow> primitive \<Rightarrow> primitive" where
  "update_topology value self =
     self\<lparr>indices := map_option asanyarray_float32 value, bounds := None,
          needs_index_update := Some True\<rparr>"


section \<open>primitive.py: the GL context\<close>

text \<open>
  The state of the context that the Primitive's calls read or write: the name
  generators, the data stores of the buffer objects, the bound vertex array, the
  \<open>GL_ARRAY_BUFFER\<close> binding and the \<open>GL_ELEMENT_ARRAY_BUFFER\<close> binding, which belongs to
  the vertex array that is bound. The vertex and index buffers hold 32-bit elements and
  every size the code passes is \<open>FLOAT_SZ\<close> or \<open>UINT_SZ\<close> (both from \<open>constants.py\<close>, the
  byte width of such an element) times a number of elements, so a store is a list of
  32-bit elements and sizes and offsets count elements. An element of a store that has
  been allocated and not written has no defined content (\<open>None\<close>). The vertex attribute
  pointers, which no operation here reads back, are not part of the state.
\<close>

datatype target = GL_ARRAY_BUFFER | GL_ELEMENT_ARRAY_BUFFER

record gl_context =
  next_vertex_array :: nat
  next_buffer_name :: nat
  buffer_store :: "nat \<rightharpoonup> 32 word option list"
  vertex_array_binding :: nat
  array_buffer_binding :: nat
  element_array_binding :: "nat \<Rightarrow> nat"

definition bound_buffer :: "target \<Rightarrow> gl_context \<Rightarrow> nat" where
  "bound_buffer t gl =
     (case t of
        GL_ARRAY_BUFFER \<Rightarrow> array_buffer_binding gl
      | GL_ELEMENT_ARRAY_BUFFER \<Rightarrow> element_array_binding gl (vertex_array_binding gl))"

definition glGenVertexArrays :: "gl_context \<Rightarrow> nat \<times> gl_context" where
  "glGenVertexArrays gl =
     (next_vertex_array gl, gl\<lparr>next_vertex_array := next_vertex_array gl + 1\<rparr>)"

definition glGenBuffers :: "gl_context \<Rightarrow> nat \<times> gl_context" where
  "glGenBuffers gl =
     (next_buffer_name gl, gl\<lparr>next_buffer_name := next_buffer_name gl + 1\<rparr>)"

definition glBindVertexArray :: "nat \<Rightarrow> gl_context \<Rightarrow> gl_context" where
  "glBindVertexArray v gl = gl\<lparr>vertex_array_binding := v\<rparr>"

definition glBindBuffer :: "target \<Rightarrow> nat \<Rightarrow> gl_context \<Rightarrow> gl_context" where
  "glBindBuffer t b gl =
     (case t of
        GL_ARRAY_BUFFER \<Rightarrow> gl\<lparr>array_buffer_binding := b\<rparr>
      | GL_ELEMENT_ARRAY_BUFFER \<Rightarrow>
          gl\<lparr>element_array_binding :=
               (element_array_binding gl)(vertex_array_binding gl := b)\<rparr>)"

text \<open>
  \<open>glBufferData(target, size, None, usage)\<close> gives the bound buffer a new store of
  \<open>size\<close> undefined elements and drops the old one; \<open>glBufferData(target, size, data,
  usage)\<close> fills the new store with \<open>data\<close>. With no buffer bound the call is
  \<open>GL_INVALID_OPERATION\<close>, with a negative size \<open>GL_INVALID_VALUE\<close>; PyOpenGL raises
  both.
\<close>

definition glBufferData_None :: "target \<Rightarrow> int \<Rightarrow> gl_context \<Rightarrow> unit result \<times> gl_context" where
  "glBufferData_None t n gl =
     (if bound_buffer t gl = 0 then (Raise (GLError ''GL_INVALID_OPERATION''), gl)
      else if n < 0 then (Raise (GLError ''GL_INVALID_VALUE''), gl)
      else (Return (),
            gl\<lparr>buffer_store := (buffer_store gl)(bound_buffer t gl \<mapsto> replicate (nat n) None)\<rparr>))"

definition glBufferData ::
    "target \<Rightarrow> 32 word option list \<Rightarrow> gl_context \<Rightarrow> unit result \<times> gl_context" where
  "glBufferData t d gl =
     (if bound_buffer t gl = 0 then (Raise (GLError ''GL_INVALID_OPERATION''), gl)
      else (Return (), gl\<lparr>buffer_store := (buffer_store gl)(bound_buffer t gl \<mapsto> d)\<rparr>))"

text \<open>
  \<open>glBufferSubData(target, offset, size, data)\<close> with \<open>size\<close> the size of \<open>data\<close>, as
  in every call of the source: \<open>GL_INVALID_VALUE\<close> unless the range lies inside the
  store (a buffer without a store has size 0).
\<close>

definition glBufferSubData ::
    "target \<Rightarrow> nat \<Rightarrow> 32 word option list \<Rightarrow> gl_context \<Rightarrow> unit result \<times> gl_context" where
  "glBufferSubData t off d gl =
     (if bound_buffer t gl = 0 then (Raise (GLError ''GL_INVALID_OPERATION''), gl)
      else (let old = (case buffer_store gl (bound_buffer t gl) of None \<Rightarrow> [] | Some s \<Rightarrow> s)
            in if length old < off + length d then (Raise (GLError ''GL_INVALID_VALUE''), gl)
               else (Return (),
                     gl\<lparr>buffer_store := (buffer_store gl)
                          (bound_buffer t gl \<mapsto> take off old @ d @ drop (off + length d) old)\<rparr>)))"

definition glDeleteVertexArrays :: "nat \<Rightarrow> gl_context \<Rightarrow> gl_context" where
  "glDeleteVertexArrays v gl =
     gl\<lparr>vertex_array_binding := (if vertex_array_binding gl = v then 0 else vertex_array_binding gl),
        element_array_binding := (element_array_binding gl)(v := 0)\<rparr>"

definition glDeleteBuffers :: "nat list \<Rightarrow> gl_context \<Rightarrow> gl_context" where
  "glDeleteBuffers bs gl =
     gl\<lparr>buffer_store := (\<lambda>b. if b \<in> set bs then None else buffer_store gl b),
        array_buffer_binding :=
          (if array_buffer_binding gl \<in> set bs then 0 else array_buffer_binding gl),
        element_array_binding :=
          (\<lambda>v. if v = vertex_array_binding gl \<and> element_array_binding gl v \<in> set bs
               then 0 else element_array_binding gl v)\<rparr>"


section \<open>primitive.py: the Primitive on the device\<close>

type_synonym pstate = "primitive \<times> gl_context"

definition in_context :: "primitive \<Rightarrow> bool" where
  "in_context self = (vaid self \<noteq> None)"

text \<open>
  The interleaved vertex data (lines 341-373 and again 555-572): \<open>positions\<close>, then
  each attribute that is present, joined by \<open>np.hstack\<close>, then flattened.
\<close>

definition hstack_present :: "'a ndarray result \<Rightarrow> 'a ndarray option \<Rightarrow> 'a ndarray result" where
  "hstack_present acc attr =
     (case acc of
        Raise e \<Rightarrow> Raise e
      | Return a \<Rightarrow> (case attr of None \<Rightarrow> Return a | Some b \<Rightarrow> hstack a b))"

definition vertex_data :: "primitive \<Rightarrow> f32 list result" where
  "vertex_data self =
     (case foldl hstack_present (Return (positions self))
             [normals self, tangents self, texcoord_0 self, texcoord_1 self, color_0 self] of
        Raise e \<Rightarrow> Raise e
      | Return a \<Rightarrow> Return (data a))"

text \<open>
  The model matrices (lines 401-408): the transposed poses, or the 4x4 identity, whose
  ones are the float \<open>1.0\<close> with bit pattern \<open>0x3F800000\<close>.
\<close>

definition eye4 :: "f32 list" where
  "eye4 = [0x3F800000, 0, 0, 0,  0, 0x3F800000, 0, 0,  0, 0, 0x3F800000, 0,  0, 0, 0, 0x3F800000]"

definition pose_data :: "primitive \<Rightarrow> f32 list result" where
  "pose_data self =
     (case poses self of
        None \<Rightarrow> Return eye4
      | Some p \<Rightarrow> (case transpose_021 p of Raise e \<Rightarrow> Raise e | Return t \<Rightarrow> Return (data t)))"

text \<open>
  Allocation with reserve (lines 376-386, 437-444, 587-596, 655-660): the capacity is
  \<open>int(count * ratio)\<close> and is recorded before the store is allocated; then the data is
  written at the start. The second component is the capacity recorded.
\<close>

definition reallocate ::
    "target \<Rightarrow> rat \<Rightarrow> 32 word option list \<Rightarrow> gl_context \<Rightarrow> unit result \<times> int \<times> gl_context" where
  "reallocate t r d gl =
     (let buffer_size = reserve_size (length d) r
      in (case glBufferData_None t buffer_size gl of
            (Raise e, g1) \<Rightarrow> (Raise e, buffer_size, g1)
          | (Return u, g1) \<Rightarrow>
              (case glBufferSubData t 0 d g1 of (res, g2) \<Rightarrow> (res, buffer_size, g2))))"

text \<open>
  The write of an update (lines 579-596 for the vertex buffer, 649-660 for the index
  buffer, the same statements on the other target and capacity attribute): within the
  recorded capacity the data overwrites the start of the store, otherwise the store is
  allocated anew. The second component is the capacity attribute afterwards.
\<close>

definition write_or_reallocate ::
    "target \<Rightarrow> rat \<Rightarrow> int option \<Rightarrow> 32 word option list \<Rightarrow> gl_context
       \<Rightarrow> unit result \<times> int option \<times> gl_context" where
  "write_or_reallocate t r cap d gl =
     (case cap of
        Some c \<Rightarrow>
          if int (length d) \<le> c
          then (case glBufferSubData t 0 d gl of (res, g1) \<Rightarrow> (res, Some c, g1))
          else (case reallocate t r d gl of (res, c', g1) \<Rightarrow> (res, Some c', g1))
      | None \<Rightarrow> (case reallocate t r d gl of (res, c', g1) \<Rightarrow> (res, Some c', g1)))"

subsection \<open>\<open>_add_to_context\<close>\<close>

text \<open>"Fill vertex buffer", lines 335-395.\<close>

definition fill_vertex_buffer :: "pstate \<Rightarrow> unit result \<times> pstate" where
  "fill_vertex_buffer st =
     (case st of (self, gl) \<Rightarrow>
        (case glGenBuffers gl of (vertexbuffer, g1) \<Rightarrow>
           let s1 = self\<lparr>buffers := buffers self @ [vertexbuffer]\<rparr>;
               g2 = glBindBuffer GL_ARRAY_BUFFER vertexbuffer g1
           in (case vertex_data s1 of
                 Raise e \<Rightarrow> (Raise e, s1, g2)
               | Return vd \<Rightarrow>
                   (case reallocate GL_ARRAY_BUFFER (buffer_reserve_ratio s1) (map Some vd) g2 of
                      (res, c, g3) \<Rightarrow> (res, s1\<lparr>vertex_buffer_capacity := Some c\<rparr>, g3)))))"

text \<open>"Fill model matrix buffer", lines 401-425.\<close>

definition fill_model_matrix_buffer :: "pstate \<Rightarrow> unit result \<times> pstate" where
  "fill_model_matrix_buffer st =
     (case st of (self, gl) \<Rightarrow>
        (case pose_data self of
           Raise e \<Rightarrow> (Raise e, self, gl)
         | Return pd \<Rightarrow>
             (case glGenBuffers gl of (modelbuffer, g1) \<Rightarrow>
                let s1 = self\<lparr>buffers := buffers self @ [modelbuffer]\<rparr>;
                    g2 = glBindBuffer GL_ARRAY_BUFFER modelbuffer g1
                in (case glBufferData GL_ARRAY_BUFFER (map Some pd) g2 of
                      (res, g3) \<Rightarrow> (res, s1, g3)))))"

text \<open>"Fill element buffer", lines 430-444.\<close>

definition fill_element_buffer :: "pstate \<Rightarrow> unit result \<times> pstate" where
  "fill_element_buffer st =
     (case st of (self, gl) \<Rightarrow>
        (case indices self of
           None \<Rightarrow> (Return (), self, gl)
         | Some idx \<Rightarrow>
             (case glGenBuffers gl of (elementbuffer, g1) \<Rightarrow>
                let s1 = self\<lparr>buffers := buffers self @ [elementbuffer],
                              element_buffer_id := Some elementbuffer\<rparr>;
                    g2 = glBindBuffer GL_ELEMENT_ARRAY_BUFFER elementbuffer g1;
                    indices_data = map astype_uint32 (data idx)
                in (case reallocate GL_ELEMENT_ARRAY_BUFFER (buffer_reserve_ratio s1)
                           indices_data g2 of
                      (res, c, g3) \<Rightarrow> (res, s1\<lparr>index_buffer_capacity := Some c\<rparr>, g3)))))"

definition add_to_context :: "pstate \<Rightarrow> unit result \<times> pstate" where
  "add_to_context st =
     (case st of (self, gl) \<Rightarrow>
        (case vaid self of
           Some v \<Rightarrow> (Raise (ValueError ''Mesh is already bound to a context''), self, gl)
         | None \<Rightarrow>
             (case glGenVertexArrays gl of (v, g1) \<Rightarrow>
                run_all [fill_vertex_buffer, fill_model_matrix_buffer, fill_element_buffer,
                         (\<lambda>(s, g). (Return (), s, glBindVertexArray 0 g))]
                  (self\<lparr>vaid := Some v\<rparr>, glBindVertexArray v g1))))"

subsection \<open>Leaving the context\<close>

definition remove_from_context :: "pstate \<Rightarrow> pstate" where
  "remove_from_context st =
     (case st of (self, gl) \<Rightarrow>
        (case vaid self of
           None \<Rightarrow> (self, gl)
         | Some v \<Rightarrow>
             (self\<lparr>vaid := None, buffers := []\<rparr>,
              glDeleteBuffers (buffers self) (glDeleteVertexArrays v gl))))"

definition bind :: "pstate \<Rightarrow> unit result \<times> pstate" where
  "bind st =
     (case st of (self, gl) \<Rightarrow>
        (case vaid self of
           None \<Rightarrow> (Raise (ValueError
                      ''Cannot bind a Mesh that has not been added to a context''), self, gl)
         | Some v \<Rightarrow> (Return (), self, glBindVertexArray v gl)))"

definition unbind :: "pstate \<Rightarrow> pstate" where
  "unbind st = (case st of (self, gl) \<Rightarrow> (self, glBindVertexArray 0 gl))"

definition delete :: "pstate \<Rightarrow> pstate" where
  "delete st = remove_from_context (unbind st)"

subsection \<open>Synchronising staged updates\<close>

text \<open>\<open>_update_vertex_buffer\<close>, lines 546-598.\<close>

definition update_vertex_buffer :: "pstate \<Rightarrow> unit result \<times> pstate" where
  "update_vertex_buffer st =
     (case st of (self, gl) \<Rightarrow>
        (case vaid self of
           None \<Rightarrow> (Return (), self, gl)
         | Some v \<Rightarrow>
             let g1 = glBindVertexArray v gl
             in (case vertex_data self of
                   Raise e \<Rightarrow> (Raise e, self, g1)
                 | Return vd \<Rightarrow>
                     (case buffers self of
                        [] \<Rightarrow> (Return (), self, glBindVertexArray 0 g1)
                      | b # bs \<Rightarrow>
                          (case write_or_reallocate GL_ARRAY_BUFFER (buffer_reserve_ratio self)
                                  (vertex_buffer_capacity self) (map Some vd)
                                  (glBindBuffer GL_ARRAY_BUFFER b g1) of
                             (Raise e, cap, g2) \<Rightarrow>
                               (Raise e, self\<lparr>vertex_buffer_capacity := cap\<rparr>, g2)
                           | (Return u, cap, g2) \<Rightarrow>
                               (Return (), self\<lparr>vertex_buffer_capacity := cap\<rparr>,
                                glBindVertexArray 0 g2))))))"

text \<open>\<open>_update_index_buffer\<close>, lines 623-665.\<close>

definition update_index_buffer :: "pstate \<Rightarrow> unit result \<times> pstate" where
  "update_index_buffer st =
     (case st of (self, gl) \<Rightarrow>
        (case vaid self of
           None \<Rightarrow> (Return (), self, gl)
         | Some v \<Rightarrow>
             let g1 = glBindVertexArray v gl
             in (case indices self of
                   None \<Rightarrow>
                     (Return (), self,
                      glBindVertexArray 0 (glBindBuffer GL_ELEMENT_ARRAY_BUFFER 0 g1))
                 | Some idx \<Rightarrow>
                     let indices_data = map astype_uint32 (data idx);
                         (element_buffer, s1, g2) =
                           (case element_buffer_id self of
                              Some eb \<Rightarrow> (eb, self, g1)
                            | None \<Rightarrow>
                                (case glGenBuffers g1 of (eb, g) \<Rightarrow>
                                   (eb,
                                    self\<lparr>buffers := buffers self @ [eb],
                                         element_buffer_id := Some eb,
                                         index_buffer_capacity := None\<rparr>,
                                    g)))
                     in (case write_or_reallocate GL_ELEMENT_ARRAY_BUFFER
                                (buffer_reserve_ratio s1) (index_buffer_capacity s1) indices_data
                                (glBindBuffer GL_ELEMENT_ARRAY_BUFFER element_buffer g2) of
                           (Raise e, cap, g3) \<Rightarrow>
                             (Raise e, s1\<lparr>index_buffer_capacity := cap\<rparr>, g3)
                         | (Return u, cap, g3) \<Rightarrow>
                             (Return (), s1\<lparr>index_buffer_capacity := cap\<rparr>,
                              glBindVertexArray 0 g3)))))"

text \<open>
  \<open>sync_gpu\<close>, lines 467-480. \<open>hasattr(self, '_needs_vertex_update') and
  self._needs_vertex_update\<close> holds exactly when the attribute exists and is \<open>True\<close>.
\<close>

definition sync_vertex :: "pstate \<Rightarrow> unit result \<times> pstate" where
  "sync_vertex st =
     (case st of (self, gl) \<Rightarrow>
        if needs_vertex_update self = Some True
        then (case update_vertex_buffer (self, gl) of
                (Raise e, s1, g1) \<Rightarrow> (Raise e, s1, g1)
              | (Return u, s1, g1) \<Rightarrow> (Return (), s1\<lparr>needs_vertex_update := Some False\<rparr>, g1))
        else (Return (), self, gl))"

definition sync_index :: "pstate \<Rightarrow> unit result \<times> pstate" where
  "sync_index st =
     (case st of (self, gl) \<Rightarrow>
        if needs_index_update self = Some True
        then (case update_index_buffer (self, gl) of
                (Raise e, s1, g1) \<Rightarrow> (Raise e, s1, g1)
              | (Return u, s1, g1) \<Rightarrow> (Return (), s1\<lparr>needs_index_update := Some False\<rparr>, g1))
        else (Return (), self, gl))"

definition sync_gpu :: "pstate \<Rightarrow> unit result \<times> pstate" where
  "sync_gpu st =
     (case st of (self, gl) \<Rightarrow>
        if \<not> in_context self then (Return (), self, gl)
        else run_all [sync_vertex, sync_index] (self, gl))"


section \<open>Sequences of writes and example objects\<close>

text \<open>
  An unbroken sequence of full-content writes to the buffer bound to a target, each
  through \<open>write_or_reallocate\<close>, starting from the capacity attribute \<open>cap\<close>. Started
  from \<open>None\<close>, the first write is the allocation.
\<close>

fun write_all ::
    "target \<Rightarrow> rat \<Rightarrow> int option \<Rightarrow> 32 word option list list \<Rightarrow> gl_context
       \<Rightarrow> unit result \<times> int option \<times> gl_context" where
  "write_all t r cap [] gl = (Return (), cap, gl)"
| "write_all t r cap (d # ds) gl =
     (case write_or_reallocate t r cap d gl of
        (Raise e, cap', gl') \<Rightarrow> (Raise e, cap', gl')
      | (Return u, cap', gl') \<Rightarrow> write_all t r cap' ds gl')"

text \<open>
  The specification's side of the capacity property, in its own words but with
  \<open>int(s * r)\<close> as the code computes it in place of the ceiling: the sizes of those
  writes whose count \<open>s\<close> exceeded the capacity current at the time of the write.
\<close>

fun growths :: "rat \<Rightarrow> int \<Rightarrow> nat list \<Rightarrow> int list" where
  "growths r c [] = []"
| "growths r c (s # ss) =
     (if c < int s then reserve_size s r # growths r (reserve_size s r) ss
      else growths r c ss)"

text \<open>A buffer is bound to the target and its store has exactly \<open>c\<close> elements.\<close>

definition holds_store :: "target \<Rightarrow> gl_context \<Rightarrow> int \<Rightarrow> bool" where
  "holds_store t gl c =
     (bound_buffer t gl \<noteq> 0 \<and> 0 \<le> c \<and>
      (case buffer_store gl (bound_buffer t gl) of None \<Rightarrow> False | Some s \<Rightarrow> int (length s) = c))"

text \<open>
  A fresh context, and a triangle with three vertices, one face and reserve ratio 1.5,
  as \<open>Primitive(positions, indices=[[0, 1, 2]], buffer_reserve_ratio=1.5)\<close> builds it
  and as \<open>_add_to_context\<close> leaves it. No color array is given, so the color formatter
  is never called.
\<close>

definition no_color :: "unit \<Rightarrow> nat \<times> nat \<Rightarrow> f32 ndarray result" where
  "no_color v shp = Raise (TypeError ''no color array given'')"

text \<open>The double that the literal \<open>1.15\<close> denotes.\<close>

definition double_1_15 :: rat where
  "double_1_15 = 5179139571476070 / 2 ^ 52"

definition gl0 :: gl_context where
  "gl0 = \<lparr>next_vertex_array = 1, next_buffer_name = 1, buffer_store = Map.empty,
          vertex_array_binding = 0, array_buffer_binding = 0,
          element_array_binding = (\<lambda>v. 0)\<rparr>"

definition triangle_positions :: "f32 ndarray" where
  "triangle_positions =
     \<lparr>shape = [3, 3], data = [0, 0, 0,  0x3F800000, 0, 0,  0, 0x3F800000, 0]\<rparr>"

definition triangle_args :: "unit init_args" where
  "triangle_args = \<lparr>arg_positions = triangle_positions,
     arg_normals = None, arg_tangents = None, arg_texcoord_0 = None, arg_texcoord_1 = None,
     arg_color_0 = None, arg_joints_0 = None, arg_weights_0 = None,
     arg_indices = Some \<lparr>shape = [1, 3], data = [0, 1, 2]\<rparr>, arg_mode = None,
     arg_poses = None, arg_buffer_reserve_ratio = 3 / 2\<rparr>"

definition triangle :: primitive where
  "triangle = blank\<lparr>positions := triangle_positions,
     indices := Some \<lparr>shape = [1, 3], data = [0, 1, 2]\<rparr>,
     buffer_reserve_ratio := 3 / 2\<rparr>"

definition triangle_bound :: primitive where
  "triangle_bound = triangle\<lparr>vaid := Some 1, buffers := [1, 2, 3],
     vertex_buffer_capacity := Some 13, index_buffer_capacity := Some 4,
     element_buffer_id := Some 3\<rparr>"

definition gl_triangle :: gl_context where
  "gl_triangle = \<lparr>next_vertex_array = 2, next_buffer_name = 4,
     buffer_store = [1 \<mapsto> map Some (data triangle_positions) @ replicate 4 None,
                     2 \<mapsto> map Some eye4,
                     3 \<mapsto> [Some 0, Some 1, Some 2, None]],
     vertex_array_binding = 0, array_buffer_binding = 2,
     element_array_binding = (\<lambda>v. 0)(1 := 3)\<rparr>"





text \<open>Arrays for the examples of the setters.\<close>

definition three_columns :: "f32 ndarray" where
  "three_columns = \<lparr>shape = [3, 3], data = [10, 11, 12,  20, 21, 22,  30, 31, 32]\<rparr>"

definition one_column :: "f32 ndarray" where
  "one_column = \<lparr>shape = [3, 1], data = [10, 20, 30]\<rparr>"

definition two_rows :: "f32 ndarray" where
  "two_rows = \<lparr>shape = [2, 4], data = [1, 2, 3, 4,  5, 6, 7, 8]\<rparr>"

definition big_index :: "nat ndarray" where
  "big_index = \<lparr>shape = [1, 3], data = [0, 1, 16777217]\<rparr>"


section \<open>Storage buffer registration (C3)\<close>

lemma create_storage_buffer_dup:
  assumes "name \<in> dom (ssbo_map self)"
  shows "create_storage_buffer name d binding (self, gl) =
           (Raise (ValueError (''Buffer '' @ name @ '' already exists'')), self, gl)"
  using assms by (simp add: create_storage_buffer_def)

lemma create_storage_buffer_fresh:
  assumes "name \<notin> dom (ssbo_map self)"
    and "0 \<le> binding" and "binding < int (max_ssbo_bindings gl)"
  shows "fst (create_storage_buffer name d binding (self, gl)) = Return ()"
    and "ssbo_map (fst (snd (create_storage_buffer name d binding (self, gl)))) =
           (ssbo_map self)(name \<mapsto> (next_buffer gl, binding, dtype d, shape d))"
  using assms
  by (simp_all add: create_storage_buffer_def glGenBuffers_ssbo_def glBindBuffer_ssbo_def
      glBufferData_ssbo_def glBindBufferBase_ssbo_def Let_def)

lemma create_storage_buffer_raise_keeps:
  assumes "fst (create_storage_buffer name d binding (self, gl)) = Raise e"
  shows "fst (snd (create_storage_buffer name d binding (self, gl))) = self"
  using assms
  by (auto simp add: create_storage_buffer_def glGenBuffers_ssbo_def glBindBuffer_ssbo_def
      glBufferData_ssbo_def glBindBufferBase_ssbo_def Let_def split: if_splits)

text \<open>
  C3, as the code has it. Registration raises the duplicate error exactly when the name
  is already registered, before anything is touched. Whenever it raises, the registry is
  the one before the call. Under a new name and a binding point the device accepts, it
  returns, and the registry gains exactly the entry
  \<open>(handle, binding, dtype, shape)\<close> under that name, the handle being the buffer name
  that \<open>glGenBuffers\<close> has just produced. Whether the binding point is already used by
  another entry is never looked at.
\<close>

theorem create_storage_buffer_contract:
  "(fst (create_storage_buffer name d binding (self, gl)) =
        Raise (ValueError (''Buffer '' @ name @ '' already exists''))
      \<longleftrightarrow> name \<in> dom (ssbo_map self))
   \<and> (name \<in> dom (ssbo_map self) \<longrightarrow>
        snd (create_storage_buffer name d binding (self, gl)) = (self, gl))
   \<and> (\<forall>e. fst (create_storage_buffer name d binding (self, gl)) = Raise e \<longrightarrow>
        fst (snd (create_storage_buffer name d binding (self, gl))) = self)
   \<and> (name \<notin> dom (ssbo_map self) \<and> 0 \<le> binding \<and> binding < int (max_ssbo_bindings gl) \<longrightarrow>
        fst (create_storage_buffer name d binding (self, gl)) = Return ()
        \<and> ssbo_map (fst (snd (create_storage_buffer name d binding (self, gl)))) =
            (ssbo_map self)(name \<mapsto> (next_buffer gl, binding, dtype d, shape d)))"
proof (intro conjI impI allI)
  show "(fst (create_storage_buffer name d binding (self, gl)) =
        Raise (ValueError (''Buffer '' @ name @ '' already exists'')))
      = (name \<in> dom (ssbo_map self))"
    by (auto simp add: create_storage_buffer_def glGenBuffers_ssbo_def glBindBuffer_ssbo_def
        glBufferData_ssbo_def glBindBufferBase_ssbo_def Let_def)
next
  assume "name \<in> dom (ssbo_map self)"
  then show "snd (create_storage_buffer name d binding (self, gl)) = (self, gl)"
    by (simp add: create_storage_buffer_dup)
next
  fix e
  assume "fst (create_storage_buffer name d binding (self, gl)) = Raise e"
  then show "fst (snd (create_storage_buffer name d binding (self, gl))) = self"
    by (rule create_storage_buffer_raise_keeps)
next
  assume h: "name \<notin> dom (ssbo_map self) \<and> 0 \<le> binding
      \<and> binding < int (max_ssbo_bindings gl)"
  then show "fst (create_storage_buffer name d binding (self, gl)) = Return ()"
    by (simp add: create_storage_buffer_fresh(1))
  from h show "ssbo_map (fst (snd (create_storage_buffer name d binding (self, gl)))) =
      (ssbo_map self)(name \<mapsto> (next_buffer gl, binding, dtype d, shape d))"
    by (simp add: create_storage_buffer_fresh(2))
qed

text \<open>
  The contract at a concrete shader: \<open>input\<close> is registered at binding point 0 and the
  entry is recorded; registering \<open>input\<close> a second time raises and changes nothing.
\<close>

theorem create_storage_buffer_contract_witness:
  "fst (create_storage_buffer ''input'' four_bytes 0 (shader0, context0)) = Return ()
   \<and> ssbo_map (fst (snd (create_storage_buffer ''input'' four_bytes 0 (shader0, context0))))
        ''input'' = Some (1, 0, ''uint8'', [4])
   \<and> create_storage_buffer ''input'' four_bytes 1
        (snd (create_storage_buffer ''input'' four_bytes 0 (shader0, context0)))
      = (Raise (ValueError ''Buffer input already exists''),
         snd (create_storage_buffer ''input'' four_bytes 0 (shader0, context0)))"
proof -
  let ?st1 = "snd (create_storage_buffer ''input'' four_bytes 0 (shader0, context0))"
  have fresh: "''input'' \<notin> dom (ssbo_map shader0) \<and> (0::int) \<le> 0
      \<and> (0::int) < int (max_ssbo_bindings context0)"
    by (simp add: shader0_def context0_def)
  have a: "fst (create_storage_buffer ''input'' four_bytes 0 (shader0, context0)) = Return ()"
    and b: "ssbo_map (fst ?st1) =
        (ssbo_map shader0)(''input'' \<mapsto> (next_buffer context0, 0, dtype four_bytes,
          shape four_bytes))"
    using create_storage_buffer_contract [of "''input''" four_bytes 0 shader0 context0] fresh
    by blast+
  have dup: "''input'' \<in> dom (ssbo_map (fst ?st1))"
    using b by simp
  have c: "create_storage_buffer ''input'' four_bytes 1 (fst ?st1, snd ?st1)
      = (Raise (ValueError (''Buffer '' @ ''input'' @ '' already exists'')), fst ?st1, snd ?st1)"
    using create_storage_buffer_contract [of "''input''" four_bytes 1 "fst ?st1" "snd ?st1"] dup
    by (metis prod.collapse)
  from a b c show ?thesis
    by (simp add: context0_def four_bytes_def)
qed

text \<open>
  The claim as written fails: with \<open>input\<close> registered at binding point 0, registering
  \<open>output\<close> at the same binding point 0 returns normally, and both entries then carry
  binding point 0.
\<close>

theorem create_storage_buffer_binding_reuse_counterexample:
  "fst (create_storage_buffer ''output'' four_bytes 0
          (snd (create_storage_buffer ''input'' four_bytes 0 (shader0, context0)))) = Return ()
   \<and> ssbo_map (fst (snd (create_storage_buffer ''output'' four_bytes 0
          (snd (create_storage_buffer ''input'' four_bytes 0 (shader0, context0))))))
        ''input'' = Some (1, 0, ''uint8'', [4])
   \<and> ssbo_map (fst (snd (create_storage_buffer ''output'' four_bytes 0
          (snd (create_storage_buffer ''input'' four_bytes 0 (shader0, context0))))))
        ''output'' = Some (2, 0, ''uint8'', [4])"
  by (simp add: create_storage_buffer_def glGenBuffers_ssbo_def glBindBuffer_ssbo_def
      glBufferData_ssbo_def glBindBufferBase_ssbo_def Let_def shader0_def context0_def
      four_bytes_def)


section \<open>Writes through the persistent mapping (C2)\<close>


lemma setitem_slice_in_range:
  assumes "0 \<le> off" and "off + int (length rhs) \<le> int (length a)"
  shows "setitem_slice a off (off + int (length rhs)) rhs =
           Return (take (nat off) a @ rhs @ drop (nat off + length rhs) a)"
proof -
  have lo: "slice_bound (length a) off = nat off"
    using assms by (simp add: slice_bound_def)
  have hi: "slice_bound (length a) (off + int (length rhs)) = nat off + length rhs"
    using assms by (simp add: slice_bound_def nat_add_distrib)
  show ?thesis
    by (simp add: setitem_slice_def lo hi Let_def)
qed

lemma PersistentBuffer_update_raise_keeps:
  "fst (PersistentBuffer_update bs off self) = Raise e \<Longrightarrow>
   snd (PersistentBuffer_update bs off self) = self"
  by (auto simp add: PersistentBuffer_update_def split: if_splits option.splits result.splits)

lemma PersistentBuffer_update_size:
  "pb_size (snd (PersistentBuffer_update bs off self)) = pb_size self"
  by (simp add: PersistentBuffer_update_def split: option.splits result.splits)

text \<open>
  C2, as the code has it, for a live buffer (\<open>_array\<close> is the view of \<open>_size\<close> bytes
  that \<open>__init__\<close> set up). The bounds error is raised exactly when
  \<open>offset + data.nbytes > _size\<close>; whenever \<open>update\<close> raises, the object and with it
  every byte of the region is as before; the size never changes; and for an offset that
  is not negative and passes the check, \<open>update\<close> returns and the region holds the bytes
  of \<open>data\<close> from \<open>offset\<close> on and its old content everywhere else.
\<close>

theorem PersistentBuffer_update_contract:
  assumes "pb_array self = Some a" and "pb_size self = int (length a)"
  shows "(fst (PersistentBuffer_update bs off self) =
            Raise (ValueError ''Update would exceed buffer size'')
          \<longleftrightarrow> off + int (length bs) > pb_size self)
       \<and> (\<forall>e. fst (PersistentBuffer_update bs off self) = Raise e \<longrightarrow>
             snd (PersistentBuffer_update bs off self) = self)
       \<and> pb_size (snd (PersistentBuffer_update bs off self)) = pb_size self
       \<and> (0 \<le> off \<and> off + int (length bs) \<le> pb_size self \<longrightarrow>
             fst (PersistentBuffer_update bs off self) = Return ()
             \<and> (\<exists>a'. pb_array (snd (PersistentBuffer_update bs off self)) = Some a'
                  \<and> length a' = length a
                  \<and> (\<forall>i < length a. a' ! i =
                        (if nat off \<le> i \<and> i < nat off + length bs
                         then Some (bs ! (i - nat off)) else a ! i))))"
proof (intro conjI impI allI)
  show "(fst (PersistentBuffer_update bs off self) =
            Raise (ValueError ''Update would exceed buffer size''))
          = (off + int (length bs) > pb_size self)"
    using assms
    by (auto simp add: PersistentBuffer_update_def setitem_slice_def Let_def
        split: result.splits)
next
  fix e assume "fst (PersistentBuffer_update bs off self) = Raise e"
  then show "snd (PersistentBuffer_update bs off self) = self"
    by (rule PersistentBuffer_update_raise_keeps)
next
  show "pb_size (snd (PersistentBuffer_update bs off self)) = pb_size self"
    by (rule PersistentBuffer_update_size)
next
  assume h: "0 \<le> off \<and> off + int (length bs) \<le> pb_size self"
  let ?a' = "take (nat off) a @ map Some bs @ drop (nat off + length bs) a"
  have s: "setitem_slice a off (off + int (length bs)) (map Some bs) = Return ?a'"
    using setitem_slice_in_range [of off "map Some bs" a] h assms by simp
  have r: "PersistentBuffer_update bs off self = (Return (), self\<lparr>pb_array := Some ?a'\<rparr>)"
    using h assms s by (simp add: PersistentBuffer_update_def)
  show "fst (PersistentBuffer_update bs off self) = Return ()"
    by (simp add: r)
  have fit: "nat off + length (map Some bs) \<le> length a"
    using h assms by (simp, linarith)
  have len: "length ?a' = length a"
    using fit by simp
  have nth: "\<forall>i < length a. ?a' ! i =
      (if nat off \<le> i \<and> i < nat off + length bs then Some (bs ! (i - nat off)) else a ! i)"
  proof (intro allI impI)
    fix i assume i: "i < length a"
    show "?a' ! i =
      (if nat off \<le> i \<and> i < nat off + length bs then Some (bs ! (i - nat off)) else a ! i)"
      using fit i by (auto simp add: nth_append min_def)
  qed
  show "\<exists>a'. pb_array (snd (PersistentBuffer_update bs off self)) = Some a'
      \<and> length a' = length a
      \<and> (\<forall>i < length a. a' ! i =
            (if nat off \<le> i \<and> i < nat off + length bs
             then Some (bs ! (i - nat off)) else a ! i))"
    using len nth by (simp add: r)
qed

text \<open>
  The contract at a region of four bytes: two bytes written at offset 1 land at
  positions 1 and 2, and two bytes at offset 3 are refused.
\<close>

theorem PersistentBuffer_update_contract_witness:
  "fst (PersistentBuffer_update [7, 9] 1 (PersistentBuffer_init 1 4)) = Return ()
   \<and> pb_size (snd (PersistentBuffer_update [7, 9] 1 (PersistentBuffer_init 1 4))) = 4
   \<and> fst (PersistentBuffer_update [7, 9] 3 (PersistentBuffer_init 1 4)) =
        Raise (ValueError ''Update would exceed buffer size'')
   \<and> snd (PersistentBuffer_update [7, 9] 3 (PersistentBuffer_init 1 4)) =
        PersistentBuffer_init 1 4"
proof -
  have arr: "pb_array (PersistentBuffer_init 1 4) = Some (replicate 4 None)"
    and sz: "pb_size (PersistentBuffer_init 1 4) = int (length (replicate 4 (None :: byte option)))"
    by (simp_all add: PersistentBuffer_init_def)
  have ok: "fst (PersistentBuffer_update [7, 9] 1 (PersistentBuffer_init 1 4)) = Return ()"
    and size: "pb_size (snd (PersistentBuffer_update [7, 9] 1 (PersistentBuffer_init 1 4))) =
        pb_size (PersistentBuffer_init 1 4)"
    using PersistentBuffer_update_contract [OF arr sz, of "[7, 9]" 1]
    by (simp_all add: PersistentBuffer_init_def)
  have over: "fst (PersistentBuffer_update [7, 9] 3 (PersistentBuffer_init 1 4)) =
        Raise (ValueError ''Update would exceed buffer size'')"
    using PersistentBuffer_update_contract [OF arr sz, of "[7, 9]" 3]
    by (simp add: PersistentBuffer_init_def)
  have kept: "snd (PersistentBuffer_update [7, 9] 3 (PersistentBuffer_init 1 4)) =
        PersistentBuffer_init 1 4"
    using PersistentBuffer_update_contract [OF arr sz, of "[7, 9]" 3] over
    by blast
  from ok size over kept show ?thesis
    by (simp add: PersistentBuffer_init_def)
qed

text \<open>
  The claim as written fails at a negative offset. Two bytes at offset \<open>-1\<close> into a
  region of four bytes pass the bounds check (\<open>-1 + 2 \<le> 4\<close>); the slice
  \<open>_array[-1:1]\<close> is empty, the assignment raises, and no byte of the data is copied.
\<close>

theorem PersistentBuffer_update_negative_offset_counterexample:
  "\<not> (- 1 + int (length [7, 9 :: byte]) > pb_size (PersistentBuffer_init 1 4))
   \<and> PersistentBuffer_update [7, 9] (- 1) (PersistentBuffer_init 1 4) =
       (Raise (ValueError ''could not broadcast input array''), PersistentBuffer_init 1 4)"
  by (simp add: PersistentBuffer_update_def PersistentBuffer_init_def setitem_slice_def
      slice_bound_def Let_def)


section \<open>Capacity of the growable buffers (C1)\<close>

subsection \<open>The rounded product is never below the count\<close>

lemma bit_length_0: "bit_length 0 = 0"
  by (simp add: bit_length.simps)

lemma bit_length_1: "bit_length (Suc 0) = 1"
  by (simp add: bit_length.simps)

lemma bit_length_numeral: "bit_length (numeral k) = Suc (bit_length (numeral k div 2))"
  by (subst bit_length.simps) simp

lemma bit_length_pos: "0 < n \<Longrightarrow> 0 < bit_length n"
  by (subst bit_length.simps) simp

lemma bit_length_lower: "0 < n \<Longrightarrow> 2 ^ (bit_length n - 1) \<le> n"
proof (induction n rule: bit_length.induct)
  case (1 n)
  show ?case
  proof (cases "n div 2 = 0")
    case True
    then have "bit_length n = 1"
      using "1.prems" by (subst bit_length.simps) (simp add: bit_length_0)
    then show ?thesis using "1.prems" by simp
  next
    case False
    then have pos: "0 < n div 2" by simp
    have ih: "2 ^ (bit_length (n div 2) - 1) \<le> n div 2"
      using "1.IH" "1.prems" pos by simp
    have bl: "bit_length n = Suc (bit_length (n div 2))"
      using "1.prems" by (subst bit_length.simps) simp
    have "0 < bit_length (n div 2)" using bit_length_pos [OF pos] .
    then have "bit_length n - 1 = Suc (bit_length (n div 2) - 1)"
      using bl by simp
    then have "(2::nat) ^ (bit_length n - 1) = 2 * 2 ^ (bit_length (n div 2) - 1)"
      by simp
    also have "\<dots> \<le> 2 * (n div 2)" using ih by simp
    also have "\<dots> \<le> n" by simp
    finally show ?thesis .
  qed
qed

lemma two_pow_pos: "0 < two_pow e"
  by (simp add: two_pow_def)

lemma round_to_double_lower:
  assumes "0 < x"
  shows "of_int \<lfloor>x / ulp_of x\<rfloor> * ulp_of x \<le> round_to_double x"
proof -
  let ?u = "ulp_of x"
  let ?q = "x / ?u"
  let ?m = "if 1 / 2 < ?q - of_int \<lfloor>?q\<rfloor> \<or> (?q - of_int \<lfloor>?q\<rfloor> = 1 / 2 \<and> odd \<lfloor>?q\<rfloor>)
            then \<lfloor>?q\<rfloor> + 1 else \<lfloor>?q\<rfloor>"
  have r: "round_to_double x = of_int ?m * ?u"
    using assms by (simp add: round_to_double_def Let_def)
  have "\<lfloor>?q\<rfloor> \<le> ?m" by simp
  then have "(of_int \<lfloor>?q\<rfloor> :: rat) \<le> of_int ?m" by (simp only: of_int_le_iff)
  then have "of_int \<lfloor>?q\<rfloor> * ?u \<le> of_int ?m * ?u"
    using two_pow_pos [of "max (floor_log2 x - 52) (- 1074)"]
    by (intro mult_right_mono) (simp_all add: ulp_of_def less_imp_le)
  then show ?thesis unfolding r .
qed

lemma round_to_double_ge_nat:
  assumes "n < 2 ^ 53" and "of_nat n \<le> x"
  shows "of_nat n \<le> round_to_double x"
proof (cases "n = 0")
  case True
  show ?thesis
  proof (cases "x = 0")
    case True
    then show ?thesis using \<open>n = 0\<close> by (simp add: round_to_double_def)
  next
    case False
    then have pos: "0 < x" using assms(2) \<open>n = 0\<close> by simp
    have "0 \<le> x / ulp_of x"
      using pos two_pow_pos [of "max (floor_log2 x - 52) (- 1074)"]
      by (simp add: ulp_of_def less_imp_le)
    then have "0 \<le> \<lfloor>x / ulp_of x\<rfloor>" by simp
    then have "(0::rat) \<le> of_int \<lfloor>x / ulp_of x\<rfloor> * ulp_of x"
      using two_pow_pos [of "max (floor_log2 x - 52) (- 1074)"]
      by (simp add: ulp_of_def less_imp_le)
    then show ?thesis using round_to_double_lower [OF pos] \<open>n = 0\<close> by simp
  qed
next
  case False
  then have n1: "1 \<le> n" by simp
  then have "(1::rat) \<le> of_nat n" by simp
  then have x1: "1 \<le> x" using assms(2) by linarith
  then have pos: "0 < x" by linarith
  let ?fx = "nat \<lfloor>x\<rfloor>"
  have fx1: "1 \<le> \<lfloor>x\<rfloor>" using x1 by simp
  then have fxpos: "0 < ?fx" by simp
  define k where "k = bit_length ?fx - 1"
  have blpos: "0 < bit_length ?fx" using bit_length_pos [OF fxpos] .
  have fl: "floor_log2 x = int k"
    using x1 blpos by (simp add: floor_log2_def k_def)
  have "2 ^ k \<le> ?fx" unfolding k_def using bit_length_lower [OF fxpos] .
  then have "int (2 ^ k) \<le> \<lfloor>x\<rfloor>" using fx1 by linarith
  then have "of_int (int (2 ^ k)) \<le> x" by (simp only: le_floor_iff)
  then have low: "(2::rat) ^ k \<le> x" by simp
  have u: "ulp_of x = two_pow (int k - 52)"
    by (simp add: ulp_of_def fl max_def)
  have "of_nat n \<le> of_int \<lfloor>x / ulp_of x\<rfloor> * ulp_of x"
  proof (cases "k \<le> 52")
    case True
    define j where "j = 52 - k"
    have uj: "ulp_of x = 1 / 2 ^ j"
    proof (cases "k = 52")
      case True
      then show ?thesis by (simp add: u two_pow_def j_def)
    next
      case False
      then have "k < 52" using \<open>k \<le> 52\<close> by simp
      then have "nat (52 - int k) = j" by (simp add: j_def)
      then show ?thesis using \<open>k < 52\<close> by (simp add: u two_pow_def)
    qed
    have q: "x / ulp_of x = x * 2 ^ j" by (simp add: uj)
    have "of_int (int n * 2 ^ j) = (of_nat n :: rat) * 2 ^ j" by simp
    also have "\<dots> \<le> x * 2 ^ j" using assms(2) by (simp add: mult_right_mono)
    finally have "int n * 2 ^ j \<le> \<lfloor>x * 2 ^ j\<rfloor>" by (simp only: le_floor_iff)
    then have "(of_int (int n * 2 ^ j) :: rat) \<le> of_int \<lfloor>x * 2 ^ j\<rfloor>"
      by (simp only: of_int_le_iff)
    then have "(of_nat n :: rat) * 2 ^ j \<le> of_int \<lfloor>x * 2 ^ j\<rfloor>" by simp
    then have "(of_nat n :: rat) \<le> of_int \<lfloor>x * 2 ^ j\<rfloor> / 2 ^ j"
      by (simp add: pos_le_divide_eq)
    then show ?thesis by (simp add: q uj)
  next
    case False
    define j where "j = k - 52"
    have kj: "k = 52 + j" using False by (simp add: j_def)
    have uj: "ulp_of x = 2 ^ j"
      using False by (simp add: u two_pow_def j_def)
    have "(2::rat) ^ 52 * 2 ^ j \<le> x" using low by (simp add: kj power_add)
    then have "(2::rat) ^ 52 \<le> x / 2 ^ j" by (simp add: pos_le_divide_eq)
    then have "of_int (2 ^ 52) \<le> x / 2 ^ j" by simp
    then have "(2::int) ^ 52 \<le> \<lfloor>x / 2 ^ j\<rfloor>" by (simp only: le_floor_iff)
    then have "(of_int (2 ^ 52) :: rat) \<le> of_int \<lfloor>x / 2 ^ j\<rfloor>"
      by (simp only: of_int_le_iff)
    then have "(of_int (2 ^ 52) :: rat) * 2 ^ j \<le> of_int \<lfloor>x / 2 ^ j\<rfloor> * 2 ^ j"
      by (intro mult_right_mono) simp_all
    then have big: "(2::rat) ^ 52 * 2 ^ j \<le> of_int \<lfloor>x / 2 ^ j\<rfloor> * 2 ^ j" by simp
    have "n < 2 ^ 52 * 2 ^ j"
    proof -
      have "(2::nat) ^ 53 \<le> 2 ^ (52 + j)"
        using False kj by (intro power_increasing) simp_all
      then show ?thesis using assms(1) by (simp add: power_add)
    qed
    then have "(of_nat n :: rat) < of_nat (2 ^ 52 * 2 ^ j)" by (simp only: of_nat_less_iff)
    then have "(of_nat n :: rat) < 2 ^ 52 * 2 ^ j" by simp
    then have "(of_nat n :: rat) \<le> of_int \<lfloor>x / 2 ^ j\<rfloor> * 2 ^ j"
      using big by linarith
    then show ?thesis by (simp only: uj)
  qed
  then show ?thesis using round_to_double_lower [OF pos] by linarith
qed

lemma reserve_size_ge:
  assumes "1 \<le> r"
  shows "int n \<le> reserve_size n r"
proof -
  have ge: "(of_nat n :: rat) \<le> of_nat n * r"
    using assms by (simp add: mult_le_cancel_left1)
  show ?thesis
  proof (cases "n < 2 ^ 53")
    case True
    have "(of_nat n :: rat) \<le> round_to_double (of_nat n * r)"
      using round_to_double_ge_nat [OF True ge] .
    then have a: "of_int (int n) \<le> round_to_double (of_nat n * r)" by simp
    then have nn: "0 \<le> round_to_double (of_nat n * r)"
      by (meson of_int_0_le_iff of_nat_0_le_iff order_trans)
    have "int n \<le> \<lfloor>round_to_double (of_nat n * r)\<rfloor>"
      using a by (simp only: le_floor_iff)
    then show ?thesis using True nn by (simp add: reserve_size_def py_int_def)
  next
    case False
    have nn: "0 \<le> of_nat n * r"
      using ge by (meson of_nat_0_le_iff order_trans)
    have "of_int (int n) \<le> of_nat n * r" using ge by simp
    then have "int n \<le> \<lfloor>of_nat n * r\<rfloor>" by (simp only: le_floor_iff)
    then show ?thesis using False nn by (simp add: reserve_size_def py_int_def)
  qed
qed

lemma reserve_size_floor:
  assumes "1 \<le> r" and "n < 2 ^ 53"
  shows "reserve_size n r = \<lfloor>round_to_double (of_nat n * r)\<rfloor>"
proof -
  have "(of_nat n :: rat) \<le> of_nat n * r"
    using assms(1) by (simp add: mult_le_cancel_left1)
  then have "(of_nat n :: rat) \<le> round_to_double (of_nat n * r)"
    by (rule round_to_double_ge_nat [OF assms(2)])
  then have "0 \<le> round_to_double (of_nat n * r)"
    by (meson of_nat_0_le_iff order_trans)
  then show ?thesis using assms(2) by (simp add: reserve_size_def py_int_def)
qed

subsection \<open>Evaluating the double arithmetic on numerals\<close>

lemma floor_rat_numeral: "\<lfloor>(numeral a / numeral b) :: rat\<rfloor> = numeral a div numeral b"
  using floor_divide_of_int_eq [of "numeral a" "numeral b", where ?'a = rat] by simp

lemma ceiling_rat_numeral: "\<lceil>(numeral a / numeral b) :: rat\<rceil> = - (- numeral a div numeral b)"
  using ceiling_divide_eq_div [of "numeral a" "numeral b", where ?'a = rat] by simp

lemmas double_eval = reserve_size_def round_to_double_def ulp_of_def floor_log2_def two_pow_def
  py_int_def bit_length_0 bit_length_1 bit_length_numeral Let_def floor_rat_numeral
  ceiling_rat_numeral

text \<open>
  The doubles of Python's \<open>100 * 1.15\<close>, \<open>20 * 1.15\<close> and \<open>9 * 1.5\<close> truncate to 114, 23
  and 13; the exact products of the first two with the value of \<open>1.15\<close> have floors 114
  and 22.
\<close>

lemma reserve_size_examples:
  "reserve_size 100 double_1_15 = 114"
  "reserve_size 20 double_1_15 = 23"
  "reserve_size 9 (3 / 2) = 13"
  "round_to_double (115 / 100) = double_1_15"
  "\<lfloor>20 * double_1_15\<rfloor> = 22"
  by (simp_all add: double_eval double_1_15_def)

subsection \<open>Writes\<close>

lemma reallocate_ok:
  assumes "1 \<le> r" and "bound_buffer t gl \<noteq> 0"
  shows "\<exists>gl'. reallocate t r d gl = (Return (), reserve_size (length d) r, gl')
            \<and> holds_store t gl' (reserve_size (length d) r)"
proof -
  let ?c = "reserve_size (length d) r"
  have le: "int (length d) \<le> ?c"
    using reserve_size_ge [OF assms(1)] .
  then have nn: "0 \<le> ?c" by linarith
  have len: "length d \<le> nat ?c" using le by linarith
  show ?thesis
    using assms(2) nn len
    by (cases t) (simp_all add: reallocate_def glBufferData_None_def glBufferSubData_def
        bound_buffer_def holds_store_def Let_def)
qed

lemma subdata_ok:
  assumes "holds_store t gl c" and "int (length d) \<le> c"
  shows "\<exists>gl'. glBufferSubData t 0 d gl = (Return (), gl') \<and> holds_store t gl' c"
  using assms
  by (cases t) (auto simp add: glBufferSubData_def bound_buffer_def holds_store_def Let_def
      split: option.splits)

lemma write_step:
  assumes "1 \<le> r" and "holds_store t gl c"
  shows "\<exists>gl'. write_or_reallocate t r (Some c) d gl =
            (Return (), Some (if int (length d) \<le> c then c else reserve_size (length d) r), gl')
          \<and> holds_store t gl' (if int (length d) \<le> c then c else reserve_size (length d) r)"
proof (cases "int (length d) \<le> c")
  case True
  from subdata_ok [OF assms(2) True] obtain gl' where
    "glBufferSubData t 0 d gl = (Return (), gl')" "holds_store t gl' c" by blast
  then show ?thesis using True by (simp add: write_or_reallocate_def)
next
  case False
  have b: "bound_buffer t gl \<noteq> 0" using assms(2) by (simp add: holds_store_def)
  from reallocate_ok [OF assms(1) b, of d] obtain gl' where
    "reallocate t r d gl = (Return (), reserve_size (length d) r, gl')"
    "holds_store t gl' (reserve_size (length d) r)" by blast
  then show ?thesis using False by (simp add: write_or_reallocate_def)
qed

lemma write_all_capacity:
  assumes "1 \<le> r"
  shows "holds_store t gl c \<Longrightarrow>
         \<exists>gl'. write_all t r (Some c) ds gl =
                  (Return (), Some (Max (set (c # growths r c (map length ds)))), gl')
              \<and> holds_store t gl' (Max (set (c # growths r c (map length ds))))"
proof (induction ds arbitrary: c gl)
  case Nil
  then show ?case by simp
next
  case (Cons d ds)
  let ?c' = "if int (length d) \<le> c then c else reserve_size (length d) r"
  from write_step [OF assms Cons.prems, of d] obtain g1 where
    w: "write_or_reallocate t r (Some c) d gl = (Return (), Some ?c', g1)"
    and h: "holds_store t g1 ?c'" by blast
  from Cons.IH [OF h] obtain g2 where
    a: "write_all t r (Some ?c') ds g1 =
          (Return (), Some (Max (set (?c' # growths r ?c' (map length ds)))), g2)"
    and b: "holds_store t g2 (Max (set (?c' # growths r ?c' (map length ds))))" by blast
  have m: "Max (set (?c' # growths r ?c' (map length ds))) =
           Max (set (c # growths r c (map length (d # ds))))"
  proof (cases "int (length d) \<le> c")
    case True
    then show ?thesis by simp
  next
    case False
    let ?f = "reserve_size (length d) r"
    have "int (length d) \<le> ?f" using reserve_size_ge [OF assms] .
    then have lt: "c < ?f" using False by linarith
    have "Max (set (c # ?f # growths r ?f (map length ds))) =
          max c (Max (set (?f # growths r ?f (map length ds))))"
      by simp
    moreover have "?f \<le> Max (set (?f # growths r ?f (map length ds)))"
      by simp
    ultimately have "Max (set (c # ?f # growths r ?f (map length ds))) =
          Max (set (?f # growths r ?f (map length ds)))"
      using lt by linarith
    then show ?thesis using False by simp
  qed
  show ?case using w a b m by simp
qed

lemma triangle_init: "Primitive_init no_color triangle_args = Return triangle"
  by (simp add: Primitive_init_def triangle_args_def triangle_def blank_def
      positions_setter_def normals_setter_def tangents_setter_def texcoord_0_setter_def
      texcoord_1_setter_def color_0_setter_def joints_0_setter_def weights_0_setter_def
      indices_setter_def mode_setter_def poses_setter_def asanyarray_float32_def
      float32_of_nat_def)

lemma replicate_one: "replicate 1 x = [x]"
  by simp

lemma triangle_reserve:
  "reserve_size (Suc (Suc (Suc (Suc (Suc (Suc (Suc (Suc (Suc 0))))))))) (3 / 2) = 13"
  "reserve_size (Suc (Suc (Suc 0))) (3 / 2) = 4"
proof -
  have n: "Suc (Suc (Suc (Suc (Suc (Suc (Suc (Suc (Suc 0)))))))) = 9" "Suc (Suc (Suc 0)) = 3"
    by simp_all
  show "reserve_size (Suc (Suc (Suc (Suc (Suc (Suc (Suc (Suc (Suc 0))))))))) (3 / 2) = 13"
    unfolding n by (simp add: double_eval)
  show "reserve_size (Suc (Suc (Suc 0))) (3 / 2) = 4"
    unfolding n by (simp add: double_eval)
qed

lemma triangle_add_to_context:
  "add_to_context (triangle, gl0) = (Return (), triangle_bound, gl_triangle)"
  by (simp del: One_nat_def add: add_to_context_def triangle_def triangle_bound_def gl_triangle_def gl0_def
      blank_def triangle_positions_def
      fill_vertex_buffer_def fill_model_matrix_buffer_def fill_element_buffer_def
      glGenVertexArrays_def glGenBuffers_def glBindVertexArray_def glBindBuffer_def
      glBufferData_def glBufferData_None_def glBufferSubData_def reallocate_def
      vertex_data_def hstack_present_def pose_data_def eye4_def bound_buffer_def
      astype_uint32_def Let_def triangle_reserve replicate_one)

text \<open>
  C1, as the code has it: the capacity is \<open>int(count * ratio)\<close>, the double product
  truncated, neither rounded up nor the floor of the exact product. For a reserve
  ratio that is a double between 1 and \<open>2 ^ 970\<close> (so that no product overflows),
  counts below \<open>2 ^ 53\<close> and a buffer bound to the target, every unbroken sequence of
  full-content writes that starts with the allocation returns, and the capacity
  attribute after it is the largest of the allocation-time capacity \<open>int(s0 * r)\<close> and
  the \<open>int(si * r)\<close> of the writes whose count exceeded the capacity current at the
  time. Each single write returns with the old capacity when its count fits and with
  \<open>int(s * r)\<close> otherwise, keeps the store as large as the capacity, and never
  decreases the capacity. Here \<open>int(s * r)\<close> is the floor of the product rounded to a
  double, and it is at least \<open>s\<close>.
\<close>

theorem capacity_after_writes:
  assumes "1 \<le> r" and "r \<le> 2 ^ 970" and "round_to_double r = r"
    and "bound_buffer t gl \<noteq> 0"
    and "\<forall>d \<in> set (d0 # ds). length d < 2 ^ 53"
  shows "(\<exists>gl'. write_all t r None (d0 # ds) gl =
            (Return (),
             Some (Max (set (reserve_size (length d0) r #
                             growths r (reserve_size (length d0) r) (map length ds)))),
             gl'))
       \<and> (\<forall>c g d. holds_store t g c \<and> length d < 2 ^ 53 \<longrightarrow>
             (\<exists>g'. write_or_reallocate t r (Some c) d g =
                      (Return (),
                       Some (if int (length d) \<le> c then c else reserve_size (length d) r), g')
                  \<and> holds_store t g'
                       (if int (length d) \<le> c then c else reserve_size (length d) r))
             \<and> c \<le> (if int (length d) \<le> c then c else reserve_size (length d) r))
       \<and> (\<forall>n < 2 ^ 53. reserve_size n r = \<lfloor>round_to_double (of_nat n * r)\<rfloor>
             \<and> int n \<le> reserve_size n r)"
proof -
  let ?c0 = "reserve_size (length d0) r"
  have first: "\<exists>gl'. write_all t r None (d0 # ds) gl =
      (Return (), Some (Max (set (?c0 # growths r ?c0 (map length ds)))), gl')"
  proof -
    from reallocate_ok [OF assms(1) assms(4), of d0] obtain g1 where
      a: "reallocate t r d0 gl = (Return (), ?c0, g1)" and h: "holds_store t g1 ?c0" by blast
    from write_all_capacity [OF assms(1) h, of ds] obtain g2 where
      "write_all t r (Some ?c0) ds g1 =
         (Return (), Some (Max (set (?c0 # growths r ?c0 (map length ds)))), g2)" by blast
    with a show ?thesis by (simp add: write_or_reallocate_def)
  qed
  have step: "(\<exists>g'. write_or_reallocate t r (Some c) d g =
                      (Return (),
                       Some (if int (length d) \<le> c then c else reserve_size (length d) r), g')
                  \<and> holds_store t g'
                       (if int (length d) \<le> c then c else reserve_size (length d) r))
             \<and> c \<le> (if int (length d) \<le> c then c else reserve_size (length d) r)"
    if "holds_store t g c \<and> length d < 2 ^ 53" for c g d
  proof -
    have "int (length d) \<le> reserve_size (length d) r"
      using reserve_size_ge [OF assms(1)] .
    then have "c \<le> (if int (length d) \<le> c then c else reserve_size (length d) r)"
      by simp
    then show ?thesis using write_step [OF assms(1), of t g c d] that by blast
  qed
  have size: "reserve_size n r = \<lfloor>round_to_double (of_nat n * r)\<rfloor>
      \<and> int n \<le> reserve_size n r" if "n < 2 ^ 53" for n
    using reserve_size_floor [OF assms(1) that] reserve_size_ge [OF assms(1), of n] by simp
  from first step size show ?thesis by blast
qed

text \<open>
  With the ratio \<open>1.15\<close>: allocation for 20 elements gives capacity 23 (the double of
  \<open>20 * 1.15\<close> is 23.0, the exact product is below 23), a write of 100 grows it to 114
  (the double of \<open>100 * 1.15\<close> is below 115), and a write of 50 fits.
\<close>

theorem capacity_after_writes_witness:
  "(\<exists>gl'. write_all GL_ARRAY_BUFFER double_1_15 None
       [replicate 20 (Some 0), replicate 100 (Some 0), replicate 50 (Some 0)]
       (glBindBuffer GL_ARRAY_BUFFER 1 gl0) = (Return (), Some 114, gl'))
   \<and> reserve_size 20 double_1_15 = 23
   \<and> reserve_size 100 double_1_15 = 114"
proof -
  have r: "1 \<le> double_1_15" "double_1_15 \<le> 2 ^ 970"
    by (simp_all add: double_1_15_def)
  have dbl: "round_to_double double_1_15 = double_1_15"
    by (simp add: double_eval double_1_15_def)
  have b: "bound_buffer GL_ARRAY_BUFFER (glBindBuffer GL_ARRAY_BUFFER 1 gl0) \<noteq> 0"
    by (simp add: bound_buffer_def glBindBuffer_def)
  have len: "\<forall>d \<in> set [replicate 20 (Some (0 :: 32 word)), replicate 100 (Some 0),
      replicate 50 (Some 0)]. length d < 2 ^ 53"
    by simp
  have m: "Max (set (reserve_size (length (replicate 20 (Some (0 :: 32 word)))) double_1_15 #
       growths double_1_15 (reserve_size (length (replicate 20 (Some (0 :: 32 word)))) double_1_15)
         (map length [replicate 100 (Some (0 :: 32 word)), replicate 50 (Some 0)]))) = 114"
    by (simp add: reserve_size_examples)
  have "\<exists>gl'. write_all GL_ARRAY_BUFFER double_1_15 None
       [replicate 20 (Some 0), replicate 100 (Some 0), replicate 50 (Some 0)]
       (glBindBuffer GL_ARRAY_BUFFER 1 gl0) = (Return (), Some 114, gl')"
    using capacity_after_writes [OF r dbl b len] unfolding m by blast
  then show ?thesis by (simp add: reserve_size_examples)
qed

text \<open>
  The claim as written fails: \<open>_add_to_context\<close> on the triangle (9 floats, ratio 1.5)
  records the vertex buffer capacity 13, where the claim's \<open>ceil(9 * 1.5)\<close> is 14.
\<close>

theorem capacity_truncates_counterexample:
  "add_to_context (triangle, gl0) = (Return (), triangle_bound, gl_triangle)
   \<and> vertex_data triangle = Return (data triangle_positions)
   \<and> length (data triangle_positions) = 9
   \<and> buffer_reserve_ratio triangle = 3 / 2
   \<and> vertex_buffer_capacity triangle_bound = Some 13
   \<and> \<lceil>9 * (3 / 2 :: rat)\<rceil> = 14"
proof -
  have "\<lceil>9 * (3 / 2 :: rat)\<rceil> = 14" by code_simp
  then show ?thesis
  by (simp add: triangle_add_to_context)
     (simp add: triangle_def triangle_bound_def blank_def vertex_data_def hstack_present_def
      triangle_positions_def)
qed


section \<open>Independence of the two staged updates (C7)\<close>

text \<open>
  C7: \<open>update_positions\<close> leaves the stored indices, the pending flag of the indices
  and the attributes of the index buffer as they were, and \<open>update_topology\<close> leaves the
  stored positions, the pending flag of the positions and the capacity of the vertex
  buffer as they were. Neither touches the device.
\<close>

theorem staging_cells_independent:
  "indices (update_positions v self) = indices self
   \<and> needs_index_update (update_positions v self) = needs_index_update self
   \<and> index_buffer_capacity (update_positions v self) = index_buffer_capacity self
   \<and> element_buffer_id (update_positions v self) = element_buffer_id self
   \<and> positions (update_topology i self) = positions self
   \<and> needs_vertex_update (update_topology i self) = needs_vertex_update self
   \<and> vertex_buffer_capacity (update_topology i self) = vertex_buffer_capacity self"
  by (simp add: update_positions_def update_topology_def)



section \<open>Operations after delete (C9)\<close>

lemma delete_vaid: "vaid (fst (delete st)) = None"
  by (cases st) (simp add: delete_def unbind_def remove_from_context_def split: option.splits)

lemma not_in_context_sync:
  "vaid self = None \<Longrightarrow> sync_gpu (self, gl) = (Return (), self, gl)"
  by (simp add: sync_gpu_def in_context_def)

lemma not_in_context_update_vertex:
  "vaid self = None \<Longrightarrow> update_vertex_buffer (self, gl) = (Return (), self, gl)"
  by (simp add: update_vertex_buffer_def)

lemma not_in_context_update_index:
  "vaid self = None \<Longrightarrow> update_index_buffer (self, gl) = (Return (), self, gl)"
  by (simp add: update_index_buffer_def)

lemma not_in_context_bind:
  "vaid self = None \<Longrightarrow> bind (self, gl) =
     (Raise (ValueError ''Cannot bind a Mesh that has not been added to a context''), self, gl)"
  by (simp add: bind_def)

lemma delete_idem: "delete (delete st) = delete st"
  by (cases st)
     (simp add: delete_def unbind_def remove_from_context_def glBindVertexArray_def
        glDeleteBuffers_def glDeleteVertexArrays_def split: option.splits)

text \<open>
  C9, as the code has it. After \<open>delete\<close> the primitive has no vertex array; \<open>_bind\<close>
  raises; \<open>sync_gpu\<close> (also with a staged update of either kind) and the two buffer
  writes return normally and change neither the primitive nor the device; and a second
  \<open>delete\<close> changes nothing.
\<close>

theorem after_delete:
  "vaid (fst (delete st)) = None
   \<and> bind (delete st) =
       (Raise (ValueError ''Cannot bind a Mesh that has not been added to a context''), delete st)
   \<and> sync_gpu (delete st) = (Return (), delete st)
   \<and> sync_gpu (update_positions v (fst (delete st)), snd (delete st)) =
       (Return (), update_positions v (fst (delete st)), snd (delete st))
   \<and> sync_gpu (update_topology i (fst (delete st)), snd (delete st)) =
       (Return (), update_topology i (fst (delete st)), snd (delete st))
   \<and> update_vertex_buffer (delete st) = (Return (), delete st)
   \<and> update_index_buffer (delete st) = (Return (), delete st)
   \<and> delete (delete st) = delete st"
proof -
  obtain s g where d: "delete st = (s, g)" by (cases "delete st")
  have v: "vaid s = None" using delete_vaid [of st] d by simp
  have v1: "vaid (update_positions v s) = None" using v by (simp add: update_positions_def)
  have v2: "vaid (update_topology i s) = None" using v by (simp add: update_topology_def)
  show ?thesis
    using v not_in_context_bind [OF v] not_in_context_sync [OF v] not_in_context_sync [OF v1]
      not_in_context_sync [OF v2] not_in_context_update_vertex [OF v]
      not_in_context_update_index [OF v] delete_idem [of st]
    by (simp add: d)
qed

text \<open>
  The claim as written fails for \<open>sync_gpu\<close>: on the deleted triangle with a staged
  position update it returns normally, does nothing, and the update stays pending.
\<close>

theorem sync_after_delete_counterexample:
  "sync_gpu (update_positions triangle_positions (fst (delete (triangle_bound, gl_triangle))),
             snd (delete (triangle_bound, gl_triangle))) =
     (Return (), update_positions triangle_positions (fst (delete (triangle_bound, gl_triangle))),
      snd (delete (triangle_bound, gl_triangle)))
   \<and> needs_vertex_update
        (update_positions triangle_positions (fst (delete (triangle_bound, gl_triangle)))) =
       Some True"
proof -
  have "vaid (update_positions triangle_positions (fst (delete (triangle_bound, gl_triangle)))) = None"
    using delete_vaid [of "(triangle_bound, gl_triangle)"] by (simp add: update_positions_def)
  then show ?thesis
    by (simp add: not_in_context_sync) (simp add: update_positions_def)
qed



section \<open>Dropping the indices (C8)\<close>








section \<open>The last staged value wins (C6)\<close>






section \<open>Texture coordinates with extra columns (C10)\<close>

lemma concat_uniform_nth:
  "\<forall>b \<in> set bs. length b = k \<Longrightarrow> i < length bs \<Longrightarrow> j < k \<Longrightarrow>
   concat bs ! (i * k + j) = bs ! i ! j"
proof (induction bs arbitrary: i)
  case Nil
  then show ?case by simp
next
  case (Cons b bs)
  have lb: "length b = k" using Cons.prems(1) by simp
  show ?case
  proof (cases i)
    case 0
    then show ?thesis using lb Cons.prems(3) by (simp add: nth_append)
  next
    case (Suc i')
    have "concat (b # bs) ! (i * k + j) = (b @ concat bs) ! (length b + (i' * k + j))"
      using Suc lb by (simp add: add.assoc)
    also have "\<dots> = concat bs ! (i' * k + j)"
      by (rule nth_append_length_plus)
    also have "\<dots> = bs ! i' ! j"
      using Cons.IH [of i'] Cons.prems Suc by simp
    finally show ?thesis using Suc by simp
  qed
qed

lemma concat_uniform_length:
  "\<forall>b \<in> set bs. length b = k \<Longrightarrow> length (concat bs) = length bs * k"
  by (induction bs) simp_all

lemma row_in_range:
  assumes "length xs = n * c" and "i < n"
  shows "length (row c xs i) = c" and "j < c \<Longrightarrow> row c xs i ! j = xs ! (i * c + j)"
proof -
  have "Suc i * c \<le> n * c"
    using assms(2) by (intro mult_le_mono1) simp
  then have le: "i * c + c \<le> length xs"
    using assms(1) by simp
  then show "length (row c xs i) = c"
    by (simp add: row_def)
  show "row c xs i ! j = xs ! (i * c + j)" if "j < c"
    using that le by (simp add: row_def)
qed

lemma first_two_columns_content:
  assumes "shape a = [n, c]" and "2 \<le> c" and "length (data a) = n * c"
  shows "shape (first_two_columns a) = [n, 2]"
    and "length (data (first_two_columns a)) = n * 2"
    and "i < n \<Longrightarrow> j < 2 \<Longrightarrow>
         data (first_two_columns a) ! (i * 2 + j) = data a ! (i * c + j)"
proof -
  let ?bs = "map (\<lambda>i. take 2 (row c (data a) i)) [0..<n]"
  have d: "data (first_two_columns a) = concat ?bs"
    using assms(1) by (simp add: first_two_columns_def)
  have u: "\<forall>b \<in> set ?bs. length b = 2"
    using assms(2) row_in_range(1) [OF assms(3)] by auto
  show "shape (first_two_columns a) = [n, 2]"
    using assms(1,2) by (simp add: first_two_columns_def)
  show "length (data (first_two_columns a)) = n * 2"
    unfolding d using concat_uniform_length [OF u] by simp
  show "data (first_two_columns a) ! (i * 2 + j) = data a ! (i * c + j)"
    if i: "i < n" and j: "j < 2"
  proof -
    have jc: "j < c" using j assms(2) by simp
    have "concat ?bs ! (i * 2 + j) = ?bs ! i ! j"
      using concat_uniform_nth [OF u, of i j] i j by simp
    also have "\<dots> = row c (data a) i ! j"
      using i j by simp
    also have "\<dots> = data a ! (i * c + j)"
      using row_in_range(2) [OF assms(3) i jc] .
    finally show ?thesis unfolding d .
  qed
qed

text \<open>
  C10. With positions of \<open>n\<close> rows: assigning \<open>texcoord_0\<close> a two-dimensional array of
  \<open>n\<close> rows and more than two columns returns and stores an array of shape \<open>(n, 2)\<close>
  whose element \<open>(i, j)\<close> is element \<open>(i, j)\<close> of the value, that is, its first two
  columns; an array that is not two-dimensional, or has another number of rows, or has
  fewer than two columns, raises the shape error and leaves the primitive as it was.
\<close>

theorem texcoord_0_truncates:
  assumes "shape (positions self) = n # ps"
  shows "(shape v = [n, c] \<and> 2 < c \<and> length (data v) = n * c \<longrightarrow>
            (\<exists>a. texcoord_0_setter (Some v) self = (Return (), self\<lparr>texcoord_0 := Some a\<rparr>)
                 \<and> shape a = [n, 2] \<and> length (data a) = n * 2
                 \<and> (\<forall>i < n. \<forall>j < 2. data a ! (i * 2 + j) = data v ! (i * c + j))))
       \<and> (ndim v \<noteq> 2 \<longrightarrow>
            texcoord_0_setter (Some v) self =
              (Raise (ValueError ''Incorrect texture coordinate shape''), self))
       \<and> (shape v = [m, c] \<and> (m \<noteq> n \<or> c < 2) \<longrightarrow>
            texcoord_0_setter (Some v) self =
              (Raise (ValueError ''Incorrect texture coordinate shape''), self))"
proof -
  have s0: "shape0 (positions self) = Return n"
    using assms by (simp add: shape0_def)
  have a: "\<exists>a. texcoord_0_setter (Some v) self = (Return (), self\<lparr>texcoord_0 := Some a\<rparr>)
                 \<and> shape a = [n, 2] \<and> length (data a) = n * 2
                 \<and> (\<forall>i < n. \<forall>j < 2. data a ! (i * 2 + j) = data v ! (i * c + j))"
    if h: "shape v = [n, c] \<and> 2 < c \<and> length (data v) = n * c"
  proof -
    have sh: "shape v = [n, c]" and c2: "2 \<le> c" and len: "length (data v) = n * c"
      using h by simp_all
    have "texcoord_0_setter (Some v) self =
        (Return (), self\<lparr>texcoord_0 := Some (first_two_columns v)\<rparr>)"
      using h s0 by (simp add: texcoord_0_setter_def ndim_def)
    then show ?thesis
      using first_two_columns_content [OF sh c2 len] by blast
  qed
  have b: "texcoord_0_setter (Some v) self =
              (Raise (ValueError ''Incorrect texture coordinate shape''), self)"
    if "ndim v \<noteq> 2"
    using that by (simp add: texcoord_0_setter_def)
  have c: "texcoord_0_setter (Some v) self =
              (Raise (ValueError ''Incorrect texture coordinate shape''), self)"
    if "shape v = [m, c] \<and> (m \<noteq> n \<or> c < 2)"
    using that s0 by (auto simp add: texcoord_0_setter_def ndim_def)
  from a b c show ?thesis by blast
qed

text \<open>
  On the triangle (three positions): a 3x3 array is cut to its first two columns, a 3x1
  array and a 2x4 array are refused.
\<close>

theorem texcoord_0_truncates_witness:
  "(\<exists>a. texcoord_0_setter (Some three_columns) triangle =
           (Return (), triangle\<lparr>texcoord_0 := Some a\<rparr>)
        \<and> shape a = [3, 2] \<and> data a ! 2 = 20 \<and> data a ! 3 = 21)
   \<and> texcoord_0_setter (Some one_column) triangle =
        (Raise (ValueError ''Incorrect texture coordinate shape''), triangle)
   \<and> texcoord_0_setter (Some two_rows) triangle =
        (Raise (ValueError ''Incorrect texture coordinate shape''), triangle)"
proof -
  have p: "shape (positions triangle) = 3 # [3]"
    by (simp add: triangle_def triangle_positions_def)
  have h: "shape three_columns = [3, 3] \<and> (2::nat) < 3 \<and> length (data three_columns) = 3 * 3"
    by (simp add: three_columns_def)
  from texcoord_0_truncates [OF p, of three_columns 3] h obtain a where
    a: "texcoord_0_setter (Some three_columns) triangle = (Return (), triangle\<lparr>texcoord_0 := Some a\<rparr>)"
    and sa: "shape a = [3, 2]"
    and el: "\<forall>i < 3. \<forall>j < 2. data a ! (i * 2 + j) = data three_columns ! (i * 3 + j)"
    by blast
  have "data a ! (1 * 2 + 0) = data three_columns ! (1 * 3 + 0)"
    and "data a ! (1 * 2 + 1) = data three_columns ! (1 * 3 + 1)"
    using el [rule_format, of 1 0] el [rule_format, of 1 1] by simp_all
  then have e: "data a ! 2 = 20 \<and> data a ! 3 = 21"
    by (simp add: three_columns_def)
  have b: "texcoord_0_setter (Some one_column) triangle =
        (Raise (ValueError ''Incorrect texture coordinate shape''), triangle)"
    using texcoord_0_truncates [OF p, of one_column 1 3] by (simp add: one_column_def)
  have c: "texcoord_0_setter (Some two_rows) triangle =
        (Raise (ValueError ''Incorrect texture coordinate shape''), triangle)"
    using texcoord_0_truncates [OF p, of two_rows 4 2] by (simp add: two_rows_def)
  from a sa e b c show ?thesis by blast
qed


section \<open>Row counts of the optional attributes (C5)\<close>

text \<open>
  C5, as the code has it. An array whose row count differs from the position count
  raises the shape error at assignment, and the primitive stays as it was, for
  \<open>normals\<close>, \<open>tangents\<close>, \<open>texcoord_0\<close> and \<open>texcoord_1\<close>. The setters of \<open>joints_0\<close>
  and \<open>weights_0\<close> store whatever they are given. (The setter of \<open>color_0\<close> hands the
  value to \<open>format_color_array\<close>, which is not among the source files modelled here.)
\<close>

theorem row_count_checked_on_assignment:
  assumes "shape (positions self) = n # ps" and "shape v = m # vs" and "m \<noteq> n"
  shows "normals_setter (Some v) self = (Raise (ValueError ''Incorrect normals shape''), self)
       \<and> tangents_setter (Some v) self = (Raise (ValueError ''Incorrect tangent shape''), self)
       \<and> texcoord_0_setter (Some v) self =
           (Raise (ValueError ''Incorrect texture coordinate shape''), self)
       \<and> texcoord_1_setter (Some v) self =
           (Raise (ValueError ''Incorrect texture coordinate shape''), self)
       \<and> joints_0_setter (Some v) self = (Return (), self\<lparr>joints_0 := Some v\<rparr>)
       \<and> weights_0_setter (Some v) self = (Return (), self\<lparr>weights_0 := Some v\<rparr>)"
proof -
  have s0: "shape0 (positions self) = Return n"
    using assms(1) by (simp add: shape0_def)
  have "normals_setter (Some v) self = (Raise (ValueError ''Incorrect normals shape''), self)"
    using assms by (simp add: normals_setter_def)
  moreover have "tangents_setter (Some v) self =
      (Raise (ValueError ''Incorrect tangent shape''), self)"
    using assms s0 by (simp add: tangents_setter_def)
  moreover have "texcoord_0_setter (Some v) self =
      (Raise (ValueError ''Incorrect texture coordinate shape''), self)"
    using assms s0 by (simp add: texcoord_0_setter_def)
  moreover have "texcoord_1_setter (Some v) self =
      (Raise (ValueError ''Incorrect texture coordinate shape''), self)"
    using assms s0 by (simp add: texcoord_1_setter_def)
  ultimately show ?thesis
    by (simp add: joints_0_setter_def weights_0_setter_def)
qed

text \<open>A 2x4 array against the three positions of the triangle.\<close>

theorem row_count_checked_on_assignment_witness:
  "normals_setter (Some two_rows) triangle =
     (Raise (ValueError ''Incorrect normals shape''), triangle)
   \<and> tangents_setter (Some two_rows) triangle =
     (Raise (ValueError ''Incorrect tangent shape''), triangle)
   \<and> texcoord_0_setter (Some two_rows) triangle =
     (Raise (ValueError ''Incorrect texture coordinate shape''), triangle)
   \<and> texcoord_1_setter (Some two_rows) triangle =
     (Raise (ValueError ''Incorrect texture coordinate shape''), triangle)"
proof -
  have p: "shape (positions triangle) = 3 # [3]"
    by (simp add: triangle_def triangle_positions_def)
  have v: "shape two_rows = 2 # [4]"
    by (simp add: two_rows_def)
  have ne: "(2::nat) \<noteq> 3" by simp
  show ?thesis
    using row_count_checked_on_assignment [OF p v ne] by simp
qed

text \<open>
  The claim as written fails for \<open>joints_0\<close> and \<open>weights_0\<close>: an array of two rows is
  accepted and stored on a primitive with three positions.
\<close>

theorem joints_weights_unchecked_counterexample:
  "shape0 (positions triangle) = Return 3
   \<and> shape0 two_rows = Return 2
   \<and> joints_0_setter (Some two_rows) triangle = (Return (), triangle\<lparr>joints_0 := Some two_rows\<rparr>)
   \<and> weights_0_setter (Some two_rows) triangle =
       (Return (), triangle\<lparr>weights_0 := Some two_rows\<rparr>)"
  by (simp add: shape0_def triangle_def triangle_positions_def two_rows_def
      joints_0_setter_def weights_0_setter_def)


section \<open>Indices on their way to the index buffer (C4)\<close>

lemma small_index_exact:
  "n < 2 ^ 24 \<Longrightarrow> astype_uint32 (float32_of_nat n) = Some (of_nat n)"
  by (simp add: float32_of_nat_def astype_uint32_def)

lemma float32_of_big: "float32_of_nat 16777217 = 16777216"
  by (simp add: float32_of_nat_def bit_length.simps Let_def)

text \<open>
  C4 at the index 16777217 (\<open>2 ^ 24 + 1\<close>): the setter stores the nearest 32-bit float,
  16777216, and the synchronised index buffer (name 3) holds 16777216, not the index
  that was given.
\<close>

theorem index_upload_rounds:
  "indices_setter (Some big_index) triangle =
     (Return (), triangle\<lparr>indices := Some \<lparr>shape = [1, 3], data = [0, 1, 16777216]\<rparr>\<rparr>)
   \<and> fst (sync_gpu (update_topology (Some big_index) triangle_bound, gl_triangle)) = Return ()
   \<and> buffer_store (snd (snd (sync_gpu (update_topology (Some big_index) triangle_bound,
                                       gl_triangle)))) 3
       = Some [Some 0, Some 1, Some 16777216, None]"
proof -
  have a: "asanyarray_float32 big_index = \<lparr>shape = [1, 3], data = [0, 1, 16777216]\<rparr>"
    by (simp add: asanyarray_float32_def big_index_def float32_of_big)
       (simp add: float32_of_nat_def)
  have s: "sync_gpu (update_topology (Some big_index) triangle_bound, gl_triangle) =
      (Return (),
       (update_topology (Some big_index) triangle_bound)\<lparr>needs_index_update := Some False\<rparr>,
       gl_triangle\<lparr>buffer_store := (buffer_store gl_triangle)
                      (3 \<mapsto> [Some 0, Some 1, Some 16777216, None])\<rparr>)"
    by (simp add: sync_gpu_def in_context_def sync_vertex_def sync_index_def
        update_index_buffer_def update_topology_def a write_or_reallocate_def
        glBufferSubData_def glBindBuffer_def glBindVertexArray_def bound_buffer_def
        astype_uint32_def triangle_bound_def triangle_def blank_def gl_triangle_def Let_def)
  show ?thesis
    by (simp add: s) (simp add: indices_setter_def a)
qed

end
